theory Spec2Isabelle
  imports Main
begin

section \<open>Python values\<close>

text \<open>
  A Python \<open>str\<close> is a sequence of Unicode code points; \<open>str_of\<close> turns an ASCII
  literal into one. The values that travel through the pipeline are the ones
  \<open>json.loads\<close> produces and \<open>json.dump\<close> accepts; a \<open>dict\<close> keeps its keys in
  insertion order.
\<close>

type_synonym pystr = "nat list"

abbreviation (input) str_of :: "string \<Rightarrow> pystr" where
  "str_of s \<equiv> map of_char s"

datatype json =
    JNull
  | JBool bool
  | JInt int
  | JFloat int int
  | JStr pystr
  | JArr "json list"
  | JObj "(pystr \<times> json) list"

type_synonym pydict = "(pystr \<times> json) list"

datatype error =
  JSONDecodeError | TypeError | AttributeError | OSError | UnicodeEncodeError | OtherError

text \<open>\<open>d.get(k, default)\<close>, \<open>k in d\<close> and \<open>d[k] = v\<close> on a dict.\<close>

definition dict_get :: "pydict \<Rightarrow> pystr \<Rightarrow> json \<Rightarrow> json" where
  "dict_get d k dflt = (case map_of d k of None \<Rightarrow> dflt | Some v \<Rightarrow> v)"

definition dict_has :: "pydict \<Rightarrow> pystr \<Rightarrow> bool" where
  "dict_has d k = (map_of d k \<noteq> None)"

fun dict_set :: "pydict \<Rightarrow> pystr \<Rightarrow> json \<Rightarrow> pydict" where
  "dict_set [] k v = [(k, v)]"
| "dict_set ((k', v') # d) k v = (if k' = k then (k, v) # d else (k', v') # dict_set d k v)"

text \<open>Truth value of a Python object in a condition.\<close>

fun truthy :: "json \<Rightarrow> bool" where
  "truthy JNull = False"
| "truthy (JBool b) = b"
| "truthy (JInt i) = (i \<noteq> 0)"
| "truthy (JFloat m e) = (m \<noteq> 0)"
| "truthy (JStr s) = (s \<noteq> [])"
| "truthy (JArr xs) = (xs \<noteq> [])"
| "truthy (JObj kv) = (kv \<noteq> [])"

text \<open>\<open>for x in v\<close>: a list gives its items, a string its characters, a dict its
  keys; anything else raises \<open>TypeError\<close>.\<close>

fun py_iter :: "json \<Rightarrow> error + json list" where
  "py_iter (JArr xs) = Inr xs"
| "py_iter (JStr s) = Inr (map (\<lambda>c. JStr [c]) s)"
| "py_iter (JObj kv) = Inr (map (\<lambda>p. JStr (fst p)) kv)"
| "py_iter _ = Inl TypeError"

text \<open>\<open>s.find(c)\<close> and \<open>s.rfind(c)\<close> for a one-character \<open>c\<close>, and the slice
  \<open>s[a:b]\<close>.\<close>

fun py_find :: "nat \<Rightarrow> pystr \<Rightarrow> int" where
  "py_find c [] = - 1"
| "py_find c (x # xs) =
     (if x = c then 0 else (let i = py_find c xs in if i < 0 then - 1 else i + 1))"

definition py_rfind :: "nat \<Rightarrow> pystr \<Rightarrow> int" where
  "py_rfind c s =
     (let i = py_find c (rev s) in if i < 0 then - 1 else int (length s) - 1 - i)"

definition slice_index :: "nat \<Rightarrow> int \<Rightarrow> nat" where
  "slice_index n i =
     (let j = (if i < 0 then i + int n else i)
      in if j < 0 then 0 else if int n < j then n else nat j)"

definition py_slice :: "pystr \<Rightarrow> int \<Rightarrow> int \<Rightarrow> pystr" where
  "py_slice s a b =
     (let lo = slice_index (length s) a; hi = slice_index (length s) b
      in take (hi - lo) (drop lo s))"

text \<open>
  Writing to a file opened with \<open>encoding='utf-8'\<close> raises \<open>UnicodeEncodeError\<close>
  on a string that holds a lone surrogate (U+D800 to U+DFFF), which
  \<open>json.loads\<close> produces from an escape. \<open>json_encodable\<close> says that
  \<open>json.dump\<close> with \<open>ensure_ascii=False\<close> can write the whole value.
\<close>

definition utf8_ok :: "pystr \<Rightarrow> bool" where
  "utf8_ok s = list_all (\<lambda>c. c < 55296 \<or> 57343 < c) s"

fun json_encodable :: "json \<Rightarrow> bool" where
  "json_encodable (JStr s) = utf8_ok s"
| "json_encodable (JArr xs) = list_all json_encodable xs"
| "json_encodable (JObj kv) = list_all (\<lambda>p. utf8_ok (fst p) \<and> json_encodable (snd p)) kv"
| "json_encodable _ = True"

section \<open>Completion gateway and Draft Agent\<close>

datatype template = EnglishTemplate | ChineseTemplate

text \<open>
  A prompt is kept as the f-string's interpolated values; the fixed wording of a
  template is not reproduced, the constructor and the \<open>template\<close> tag say which
  literal it is.
\<close>

datatype prompt =
    GenerationPrompt pystr pystr pystr pystr pystr int
  | AdaptationPrompt template json "json list" "json list" pystr pystr

datatype err_msg = MissingInput | ApiCallError | GenerationFailed

datatype event =
    StError err_msg
  | StWarning
  | StSuccess
  | DraftAgentInvoked
  | StyleAgentInvoked
  | CreateDraft
  | UpdateDraft
  | CreateFinal

text \<open>
  \<open>call_llm_api\<close>: the client either returns the output text or raises; the
  exception is caught, shown with \<open>st.error\<close>, and \<open>None\<close> is returned. The
  gateway \<open>gw\<close> is the external service: \<open>None\<close> stands for a raised exception.
\<close>

definition call_llm_api :: "(prompt \<Rightarrow> pystr option) \<Rightarrow> prompt \<Rightarrow> pystr option \<times> event list" where
  "call_llm_api gw p =
     (case gw p of Some text \<Rightarrow> (Some text, []) | None \<Rightarrow> (None, [StError ApiCallError]))"

definition LBRACE :: nat where "LBRACE = 123"
definition RBRACE :: nat where "RBRACE = 125"

definition k_original_text :: pystr where "k_original_text = str_of ''original_text''"
definition k_key_points :: pystr where "k_key_points = str_of ''key_points''"
definition k_intentions :: pystr where "k_intentions = str_of ''intentions''"
definition k_metadata :: pystr where "k_metadata = str_of ''metadata''"
definition k_timestamp :: pystr where "k_timestamp = str_of ''timestamp''"
definition k_context :: pystr where "k_context = str_of ''context''"
definition k_goal :: pystr where "k_goal = str_of ''goal''"

definition build_generation_prompt ::
  "pystr \<Rightarrow> pystr \<Rightarrow> pystr \<Rightarrow> pystr \<Rightarrow> pystr \<Rightarrow> int \<Rightarrow> prompt" where
  "build_generation_prompt context dialogue_mode goal language difficulty num_turns =
     GenerationPrompt context dialogue_mode goal language difficulty num_turns"

text \<open>The \<open>response\<close> of the gateway as a Python object: a string or \<open>None\<close>.\<close>

definition response_value :: "pystr option \<Rightarrow> json" where
  "response_value response = (case response of None \<Rightarrow> JNull | Some r \<Rightarrow> JStr r)"

definition raw_draft :: "pystr option \<Rightarrow> pydict" where
  "raw_draft response =
     [(k_original_text, response_value response),
      (k_key_points, JArr []),
      (k_intentions, JArr [])]"

text \<open>\<open>response[response.find('{') : response.rfind('}') + 1]\<close>\<close>

definition json_span :: "pystr \<Rightarrow> pystr" where
  "json_span response =
     py_slice response (py_find LBRACE response) (py_rfind RBRACE response + 1)"

text \<open>
  The \<open>try\<close> block of \<open>generate_dialogue\<close>. \<open>loads\<close> is \<open>json.loads\<close> on a text
  that begins with an opening brace or is empty, so a successful result is a
  dict. Only \<open>JSONDecodeError\<close> is caught; any other exception of \<open>json.loads\<close>
  leaves the function.
\<close>

definition parse_response :: "(pystr \<Rightarrow> error + pydict) \<Rightarrow> pystr option \<Rightarrow> error + pydict" where
  "parse_response loads response =
     (case response of
        None \<Rightarrow> Inr (raw_draft response)
      | Some r \<Rightarrow>
          if r \<noteq> [] \<and> LBRACE \<in> set r \<and> RBRACE \<in> set r then
            (case loads (json_span r) of
               Inr dialogue_data \<Rightarrow> Inr dialogue_data
             | Inl JSONDecodeError \<Rightarrow> Inr (raw_draft response)
             | Inl e \<Rightarrow> Inl e)
          else Inr (raw_draft response))"

definition generate_dialogue ::
  "(pystr \<Rightarrow> error + pydict) \<Rightarrow> (prompt \<Rightarrow> pystr option) \<Rightarrow>
   pystr \<Rightarrow> pystr \<Rightarrow> pystr \<Rightarrow> pystr \<Rightarrow> pystr \<Rightarrow> int \<Rightarrow> (error + pydict) \<times> event list" where
  "generate_dialogue loads gw context dialogue_mode goal language difficulty num_turns =
     (let p = build_generation_prompt context dialogue_mode goal language difficulty num_turns;
          (response, evs) = call_llm_api gw p
      in (parse_response loads response, evs))"

text \<open>
  The spec's reading of the span, for comparison with \<open>json_span\<close>: the first
  opening brace that has a matching closing brace, up to that closing brace.
\<close>

fun scan_balanced :: "nat \<Rightarrow> pystr \<Rightarrow> pystr option" where
  "scan_balanced depth [] = None"
| "scan_balanced depth (c # cs) =
     (if c = LBRACE then map_option (Cons c) (scan_balanced (Suc depth) cs)
      else if c = RBRACE then
        (if depth \<le> 1 then Some [c] else map_option (Cons c) (scan_balanced (depth - 1) cs))
      else map_option (Cons c) (scan_balanced depth cs))"

fun first_balanced_span :: "pystr \<Rightarrow> pystr option" where
  "first_balanced_span [] = None"
| "first_balanced_span (c # cs) =
     (if c = LBRACE then
        (case scan_balanced 1 cs of
           Some t \<Rightarrow> Some (c # t)
         | None \<Rightarrow> first_balanced_span cs)
      else first_balanced_span cs)"

text \<open>
  A fragment of \<open>json.loads\<close>, enough for the examples below: the text \<open>{}\<close>
  decodes to the empty dict; the other texts used (\<open>{}{}\<close> and the empty text)
  are rejected with \<open>JSONDecodeError\<close>, as \<open>json.loads\<close> rejects them.
\<close>

definition loads_sample :: "pystr \<Rightarrow> error + pydict" where
  "loads_sample s = (if s = str_of ''{}'' then Inr [] else Inl JSONDecodeError)"

text \<open>A Draft's text is a non-empty string.\<close>

definition text_nonempty :: "pydict \<Rightarrow> bool" where
  "text_nonempty d = (case map_of d k_original_text of Some (JStr t) \<Rightarrow> t \<noteq> [] | _ \<Rightarrow> False)"

section \<open>Style Agent\<close>

text \<open>The language names the source compares with: \<open>lang_en\<close> is the value the
  source writes for English, \<open>lang_zh\<close> the one for Chinese.\<close>

definition lang_en :: pystr where "lang_en = [33521, 25991]"
definition lang_zh :: pystr where "lang_zh = [20013, 25991]"

text \<open>\<open>re.search\<close> for a character in the range U+4E00 to U+9FFF.\<close>

definition has_chinese :: "pystr \<Rightarrow> bool" where
  "has_chinese text = list_ex (\<lambda>c. 19968 \<le> c \<and> c \<le> 40959) text"

text \<open>
  The spec's words, for comparison with \<open>has_chinese\<close>: a CJK ideograph is a
  character of a block of CJK unified ideographs, of which Unicode has the
  basic block U+4E00 to U+9FFF, Extension A (U+3400 to U+4DBF) and Extension B
  (U+20000 to U+2A6DF).
\<close>

definition spec_cjk_ideograph :: "nat \<Rightarrow> bool" where
  "spec_cjk_ideograph c =
     ((19968 \<le> c \<and> c \<le> 40959) \<or> (13312 \<le> c \<and> c \<le> 19903)
      \<or> (131072 \<le> c \<and> c \<le> 173791))"

definition detect_language :: "json \<Rightarrow> pystr option \<Rightarrow> error + pystr" where
  "detect_language original_text language =
     (case (case language of None \<Rightarrow> None | Some l \<Rightarrow> if l = [] then None else Some l) of
        Some l \<Rightarrow> Inr l
      | None \<Rightarrow>
          (case original_text of
             JStr t \<Rightarrow> Inr (if has_chinese t then lang_zh else lang_en)
           | _ \<Rightarrow> Inl TypeError))"

definition build_adaptation_prompt ::
  "pydict \<Rightarrow> pystr \<Rightarrow> pystr \<Rightarrow> pystr option \<Rightarrow> error + prompt" where
  "build_adaptation_prompt dialogue_data user_traits ai_traits language =
     (let original_text = dict_get dialogue_data k_original_text (JStr []);
          key_points = dict_get dialogue_data k_key_points (JArr []);
          intentions = dict_get dialogue_data k_intentions (JArr [])
      in case py_iter key_points of
           Inl e \<Rightarrow> Inl e
         | Inr key_points_text \<Rightarrow>
             (case py_iter intentions of
                Inl e \<Rightarrow> Inl e
              | Inr intentions_text \<Rightarrow>
                  (case detect_language original_text language of
                     Inl e \<Rightarrow> Inl e
                   | Inr lang \<Rightarrow>
                       Inr (AdaptationPrompt
                              (if lang = lang_en then EnglishTemplate else ChineseTemplate)
                              original_text key_points_text intentions_text
                              user_traits ai_traits))))"

definition adapt_dialogue ::
  "(prompt \<Rightarrow> pystr option) \<Rightarrow> pydict \<Rightarrow> pystr \<Rightarrow> pystr \<Rightarrow> pystr option \<Rightarrow>
   (error + pystr option) \<times> event list" where
  "adapt_dialogue gw dialogue_data user_traits ai_traits language =
     (case build_adaptation_prompt dialogue_data user_traits ai_traits language of
        Inl e \<Rightarrow> (Inl e, [])
      | Inr p \<Rightarrow> (let (response, evs) = call_llm_api gw p in (Inr response, evs)))"

section \<open>Artifact Store\<close>

text \<open>
  A file holds the text \<open>json.dump\<close> wrote for a value, which \<open>json.load\<close>
  reads back as that value; or the beginning of that text, when \<open>json.dump\<close>
  raised before the end, which \<open>json.load\<close> rejects; or the pieces written by
  \<open>f.write\<close>, which \<open>json.load\<close> rejects too (the rendered documents begin
  with a heading mark). A written piece is a literal text or the formatting of
  a value in an f-string.
\<close>

datatype md_chunk = Txt pystr | Val json

datatype content = JsonText json | Truncated json | Rendered "md_chunk list"

text \<open>
  The world outside the program: the files and directories, the paths that
  cannot be created or opened for writing, the successive readings of the clock
  (already formatted by \<open>strftime\<close>) and of \<open>uuid.uuid4\<close>, the character
  classes \<open>\w\<close> and \<open>\s\<close> of the runtime, and whether the console can encode
  the messages that the exception handlers print.
\<close>

record world =
  files :: "pystr \<Rightarrow> content option"
  dirs :: "pystr list"
  denied :: "pystr list"
  clock :: "nat \<Rightarrow> pystr"
  tick :: nat
  uuids :: "nat \<Rightarrow> pystr"
  drawn :: nat
  is_word :: "nat \<Rightarrow> bool"
  is_space :: "nat \<Rightarrow> bool"
  stdout_ok :: bool

definition now :: "world \<Rightarrow> pystr \<times> world" where
  "now w = (clock w (tick w), w\<lparr>tick := Suc (tick w)\<rparr>)"

definition uuid4 :: "world \<Rightarrow> pystr \<times> world" where
  "uuid4 w = (uuids w (drawn w), w\<lparr>drawn := Suc (drawn w)\<rparr>)"

definition path_exists :: "world \<Rightarrow> pystr \<Rightarrow> bool" where
  "path_exists w p = (files w p \<noteq> None \<or> p \<in> set (dirs w))"

text \<open>\<open>if not os.path.exists(d): os.makedirs(d)\<close>\<close>

definition ensure_dir :: "world \<Rightarrow> pystr \<Rightarrow> (error + unit) \<times> world" where
  "ensure_dir w d =
     (if path_exists w d then (Inr (), w)
      else if d \<in> set (denied w) then (Inl OSError, w)
      else (Inr (), w\<lparr>dirs := d # dirs w\<rparr>))"

definition can_open_w :: "world \<Rightarrow> pystr \<Rightarrow> bool" where
  "can_open_w w p = (p \<notin> set (denied w) \<and> p \<notin> set (dirs w))"

text \<open>
  \<open>with open(p, 'w', encoding='utf-8') as f: json.dump(v, f, ensure_ascii=False,
  indent=2)\<close>: opening truncates the file, and \<open>json.dump\<close> writes the text
  piece by piece, so when a piece cannot be encoded the file is left with the
  beginning of the text.
\<close>

definition write_json_file :: "world \<Rightarrow> pystr \<Rightarrow> json \<Rightarrow> (error + unit) \<times> world" where
  "write_json_file w p v =
     (if can_open_w w p then
        (if json_encodable v then (Inr (), w\<lparr>files := (files w)(p \<mapsto> JsonText v)\<rparr>)
         else (Inl UnicodeEncodeError, w\<lparr>files := (files w)(p \<mapsto> Truncated v)\<rparr>))
      else (Inl OSError, w))"

text \<open>
  The statements inside \<open>with open(p, 'w', encoding='utf-8') as f\<close>, in order:
  each either writes its pieces or raises, also when its text cannot be
  encoded (a string formatted on its own is written as it is; inside a list or
  a dict it is written by \<open>repr\<close>, which escapes a lone surrogate). The file
  keeps what was written before an exception.
\<close>

fun chunk_ok :: "md_chunk \<Rightarrow> bool" where
  "chunk_ok (Txt s) = utf8_ok s"
| "chunk_ok (Val (JStr s)) = utf8_ok s"
| "chunk_ok (Val v) = True"

fun run_writes :: "(error + md_chunk list) list \<Rightarrow> md_chunk list \<times> error option" where
  "run_writes [] = ([], None)"
| "run_writes (Inl e # ws) = ([], Some e)"
| "run_writes (Inr cs # ws) =
     (if list_all chunk_ok cs then (let (out, r) = run_writes ws in (cs @ out, r))
      else ([], Some UnicodeEncodeError))"

definition write_md_file ::
  "world \<Rightarrow> pystr \<Rightarrow> (error + md_chunk list) list \<Rightarrow> (error + unit) \<times> world" where
  "write_md_file w p ws =
     (if can_open_w w p then
        (let (out, r) = run_writes ws
         in ((case r of None \<Rightarrow> Inr () | Some e \<Rightarrow> Inl e),
             w\<lparr>files := (files w)(p \<mapsto> Rendered out)\<rparr>))
      else (Inl OSError, w))"

definition read_json_file :: "world \<Rightarrow> pystr \<Rightarrow> error + json" where
  "read_json_file w p =
     (case files w p of
        None \<Rightarrow> Inl OSError
      | Some (JsonText v) \<Rightarrow> Inr v
      | Some (Truncated v) \<Rightarrow> Inl JSONDecodeError
      | Some (Rendered cs) \<Rightarrow> Inl JSONDecodeError)"

text \<open>\<open>f.write(v)\<close>: \<open>TypeError\<close> unless \<open>v\<close> is a string.\<close>

definition write_str :: "json \<Rightarrow> error + md_chunk list" where
  "write_str v = (case v of JStr t \<Rightarrow> Inr [Txt t] | _ \<Rightarrow> Inl TypeError)"

definition t_record_title :: pystr where
  "t_record_title = [35, 32, 23545, 35805, 35760, 24405, 58, 32]"

definition t_final_title :: pystr where
  "t_final_title = [35, 32, 26368, 32456, 23545, 35805, 58, 32]"

definition t_dots :: pystr where
  "t_dots = [46, 46, 46, 10, 10]"

definition t_time :: pystr where
  "t_time = [42, 42, 29983, 25104, 26102, 38388, 42, 42, 58, 32]"

definition t_context :: pystr where
  "t_context = [42, 42, 23545, 35805, 32972, 26223, 42, 42, 58, 32]"

definition t_goal :: pystr where
  "t_goal = [42, 42, 23545, 35805, 30446, 26631, 42, 42, 58, 32]"

definition t_nl2 :: pystr where
  "t_nl2 = [10, 10]"

definition t_nl :: pystr where
  "t_nl = [10]"

definition t_content_heading :: pystr where
  "t_content_heading = [35, 35, 32, 23545, 35805, 20869, 23481, 10, 10]"

definition t_fence_open :: pystr where
  "t_fence_open = [96, 96, 96, 10]"

definition t_fence_close :: pystr where
  "t_fence_close = [10, 96, 96, 96, 10, 10]"

definition t_key_points_heading :: pystr where
  "t_key_points_heading = [35, 35, 32, 20851, 38190, 33410, 28857, 10, 10]"

definition t_intentions_heading :: pystr where
  "t_intentions_heading = [35, 35, 32, 23545, 35805, 24847, 22270, 10, 10]"

definition t_bullet :: pystr where
  "t_bullet = [45, 32]"

definition t_traits_heading :: pystr where
  "t_traits_heading = [35, 35, 32, 35282, 33394, 29305, 36136, 10, 10]"

definition t_user_traits :: pystr where
  "t_user_traits = [42, 42, 29992, 25143, 35282, 33394, 29305, 36136, 42, 42, 58, 32]"

definition t_ai_traits :: pystr where
  "t_ai_traits = [42, 42, 65, 73, 32, 35282, 33394, 29305, 36136, 42, 42, 58, 32]"

definition t_final_heading :: pystr where
  "t_final_heading = [35, 35, 32, 26368, 32456, 23545, 35805, 20869, 23481, 10, 10]"

definition t_initial_heading :: pystr where
  "t_initial_heading = [35, 35, 32, 21021, 22987, 23545, 35805, 20869, 23481, 10, 10]"

definition t_key_points_subheading :: pystr where
  "t_key_points_subheading = [35, 35, 35, 32, 20851, 38190, 33410, 28857, 10, 10]"

definition t_intentions_subheading :: pystr where
  "t_intentions_subheading = [35, 35, 35, 32, 23545, 35805, 24847, 22270, 10, 10]"

text \<open>\<open>for point in v: f.write(f"- {point}\n")\<close>\<close>

definition bullets :: "json \<Rightarrow> (error + md_chunk list) list" where
  "bullets v =
     (case py_iter v of
        Inl e \<Rightarrow> [Inl e]
      | Inr items \<Rightarrow> map (\<lambda>point. Inr [Txt t_bullet, Val point, Txt t_nl]) items)"

text \<open>The body, key points and intentions of a draft's rendering; the same
  statements in \<open>save_dialogue_data\<close> and \<open>update_dialogue_files\<close>.\<close>

definition draft_body_writes :: "pydict \<Rightarrow> (error + md_chunk list) list" where
  "draft_body_writes dialogue_data =
     [Inr [Txt t_content_heading],
      Inr [Txt t_fence_open],
      write_str (dict_get dialogue_data k_original_text (JStr [])),
      Inr [Txt t_fence_close]]
     @ (if truthy (dict_get dialogue_data k_key_points JNull)
        then [Inr [Txt t_key_points_heading]]
             @ bullets (dict_get dialogue_data k_key_points (JArr []))
             @ [Inr [Txt t_nl]]
        else [])
     @ (if truthy (dict_get dialogue_data k_intentions JNull)
        then [Inr [Txt t_intentions_heading]]
             @ bullets (dict_get dialogue_data k_intentions (JArr []))
        else [])"

text \<open>\<open>re.sub(r'[^\w\s-]', '', context)[:20].strip().replace(' ', '_')\<close>\<close>

definition py_strip :: "world \<Rightarrow> pystr \<Rightarrow> pystr" where
  "py_strip w s = rev (dropWhile (is_space w) (rev (dropWhile (is_space w) s)))"

definition safe_context_of :: "world \<Rightarrow> pystr \<Rightarrow> pystr" where
  "safe_context_of w context =
     map (\<lambda>c. if c = 32 then 95 else c)
       (py_strip w (take 20 (filter (\<lambda>c. is_word w c \<or> is_space w c \<or> c = 45) context)))"

definition fresh_metadata :: "pystr \<Rightarrow> pystr \<Rightarrow> pystr \<Rightarrow> json" where
  "fresh_metadata timestamp context goal =
     JObj [(k_timestamp, JStr timestamp), (k_context, JStr context), (k_goal, JStr goal)]"

text \<open>The body of the \<open>try\<close> of \<open>save_dialogue_data\<close>: the result is the
  returned pair, or the exception that left the body, with the world as it is
  then.\<close>

definition save_dialogue_data_try ::
  "world \<Rightarrow> pydict \<Rightarrow> pystr \<Rightarrow> pystr \<Rightarrow>
   (error + pystr option \<times> pystr option) \<times> world" where
  "save_dialogue_data_try w dialogue_data context goal =
     (let save_dir = str_of ''dialogue_data'' in
      case ensure_dir w save_dir of
        (Inl e, w1) \<Rightarrow> (Inl e, w1)
      | (Inr u, w1) \<Rightarrow>
          (let (timestamp, w2) = now w1;
               (uid, w3) = uuid4 w2;
               unique_id = take 8 uid;
               safe_context = safe_context_of w3 context;
               base_filename = timestamp @ str_of ''_'' @ safe_context @ str_of ''_'' @ unique_id;
               json_filename = save_dir @ str_of ''/'' @ base_filename @ str_of ''.json'';
               md_filename = save_dir @ str_of ''/'' @ base_filename @ str_of ''.md'';
               dialogue_data_with_meta =
                 dict_set dialogue_data k_metadata (fresh_metadata timestamp context goal)
           in case write_json_file w3 json_filename (JObj dialogue_data_with_meta) of
                (Inl e, w4) \<Rightarrow> (Inl e, w4)
              | (Inr u, w4) \<Rightarrow>
                  (case write_md_file w4 md_filename
                          ([Inr [Txt t_record_title, Txt (take 30 context), Txt t_dots],
                            Inr [Txt t_time, Txt timestamp, Txt t_nl2],
                            Inr [Txt t_context, Txt context, Txt t_nl2],
                            Inr [Txt t_goal, Txt goal, Txt t_nl2]]
                           @ draft_body_writes dialogue_data) of
                     (Inl e, w5) \<Rightarrow> (Inl e, w5)
                   | (Inr u, w5) \<Rightarrow> (Inr (Some json_filename, Some md_filename), w5))))"

text \<open>
  \<open>except Exception as e: print(...); return (None, None)\<close>. The printed
  message holds Chinese characters: where the console cannot encode them,
  \<open>print\<close> raises \<open>UnicodeEncodeError\<close> inside the handler and that exception
  leaves the function. The result of a store function is therefore the
  returned pair or the exception that left the function.
\<close>

definition catch_all ::
  "(error + pystr option \<times> pystr option) \<times> world \<Rightarrow>
   (error + pystr option \<times> pystr option) \<times> world" where
  "catch_all r =
     (case r of
        (Inl e, w) \<Rightarrow>
          if stdout_ok w then (Inr (None, None), w) else (Inl UnicodeEncodeError, w)
      | (Inr paths, w) \<Rightarrow> (Inr paths, w))"

definition save_dialogue_data ::
  "world \<Rightarrow> pydict \<Rightarrow> pystr \<Rightarrow> pystr \<Rightarrow>
   (error + pystr option \<times> pystr option) \<times> world" where
  "save_dialogue_data w dialogue_data context goal =
     catch_all (save_dialogue_data_try w dialogue_data context goal)"

text \<open>\<open>os.path.splitext(p)[0]\<close> (POSIX)\<close>

definition splitext_root :: "pystr \<Rightarrow> pystr" where
  "splitext_root p =
     (let sepIndex = py_rfind 47 p; dotIndex = py_rfind 46 p
      in if sepIndex < dotIndex \<and> list_ex (\<lambda>c. c \<noteq> 46) (py_slice p (sepIndex + 1) dotIndex)
         then py_slice p 0 dotIndex else p)"

text \<open>\<open>k in t\<close> for strings: \<open>k\<close> occurs in \<open>t\<close>.\<close>

fun py_substr :: "pystr \<Rightarrow> pystr \<Rightarrow> bool" where
  "py_substr k [] = (k = [])"
| "py_substr k (x # xs) = (take (length k) (x # xs) = k \<or> py_substr k xs)"

text \<open>
  The inner \<open>try\<close> of \<open>update_dialogue_files\<close>: \<open>metadata\<close> starts as the empty
  dict, is replaced by the stored \<open>metadata\<close> when the decoded file has that key,
  and by fresh metadata when anything raises (the file cannot be read or
  decoded, or the decoded value supports neither \<open>in\<close> nor a string index).
\<close>

definition recover_metadata :: "world \<Rightarrow> pystr \<Rightarrow> pystr \<Rightarrow> pystr \<Rightarrow> json \<times> world" where
  "recover_metadata w json_path context goal =
     (let fresh = (let (timestamp, w') = now w in (fresh_metadata timestamp context goal, w'))
      in case read_json_file w json_path of
           Inl e \<Rightarrow> fresh
         | Inr (JObj original_data) \<Rightarrow>
             (case map_of original_data k_metadata of
                Some metadata \<Rightarrow> (metadata, w)
              | None \<Rightarrow> (JObj [], w))
         | Inr (JArr xs) \<Rightarrow> if JStr k_metadata \<in> set xs then fresh else (JObj [], w)
         | Inr (JStr t) \<Rightarrow> if py_substr k_metadata t then fresh else (JObj [], w)
         | Inr _ \<Rightarrow> fresh)"

text \<open>The body of the \<open>try\<close> of \<open>update_dialogue_files\<close> after the early
  return, for a path that names an existing file.\<close>

definition update_dialogue_files_rest ::
  "world \<Rightarrow> pystr \<Rightarrow> pydict \<Rightarrow> pystr \<Rightarrow> pystr \<Rightarrow>
   (error + pystr option \<times> pystr option) \<times> world" where
  "update_dialogue_files_rest w json_path dialogue_data context goal =
     (let base_path = splitext_root json_path;
          md_path = base_path @ str_of ''.md'';
          (metadata, w1) = recover_metadata w json_path context goal;
          dialogue_data_with_meta = dict_set dialogue_data k_metadata metadata
      in case write_json_file w1 json_path (JObj dialogue_data_with_meta) of
           (Inl e, w2) \<Rightarrow> (Inl e, w2)
         | (Inr u, w2) \<Rightarrow>
             (case metadata of
                JObj md \<Rightarrow>
                  (let timestamp = dict_get md k_timestamp (JStr []) in
                   case write_md_file w2 md_path
                          ([Inr [Txt t_record_title, Txt (take 30 context), Txt t_dots],
                            Inr [Txt t_time, Val timestamp, Txt t_nl2],
                            Inr [Txt t_context, Val (dict_get md k_context (JStr context)), Txt t_nl2],
                            Inr [Txt t_goal, Val (dict_get md k_goal (JStr goal)), Txt t_nl2]]
                           @ draft_body_writes dialogue_data) of
                     (Inl e, w3) \<Rightarrow> (Inl e, w3)
                   | (Inr u, w3) \<Rightarrow> (Inr (Some json_path, Some md_path), w3))
              | _ \<Rightarrow> (Inl AttributeError, w2)))"

text \<open>\<open>not json_path or not os.path.exists(json_path)\<close>\<close>

definition path_missing :: "world \<Rightarrow> pystr option \<Rightarrow> bool" where
  "path_missing w json_path =
     (case json_path of None \<Rightarrow> True | Some p \<Rightarrow> p = [] \<or> \<not> path_exists w p)"

definition update_dialogue_files_try ::
  "world \<Rightarrow> pystr option \<Rightarrow> pydict \<Rightarrow> pystr \<Rightarrow> pystr \<Rightarrow>
   (error + pystr option \<times> pystr option) \<times> world" where
  "update_dialogue_files_try w json_path dialogue_data context goal =
     (case json_path of
        None \<Rightarrow> save_dialogue_data w dialogue_data context goal
      | Some p \<Rightarrow>
          if path_missing w json_path
          then save_dialogue_data w dialogue_data context goal
          else update_dialogue_files_rest w p dialogue_data context goal)"

definition update_dialogue_files ::
  "world \<Rightarrow> pystr option \<Rightarrow> pydict \<Rightarrow> pystr \<Rightarrow> pystr \<Rightarrow>
   (error + pystr option \<times> pystr option) \<times> world" where
  "update_dialogue_files w json_path dialogue_data context goal =
     catch_all (update_dialogue_files_try w json_path dialogue_data context goal)"

definition k_final_text :: pystr where "k_final_text = str_of ''final_text''"
definition k_user_traits :: pystr where "k_user_traits = str_of ''user_traits''"
definition k_ai_traits :: pystr where "k_ai_traits = str_of ''ai_traits''"
definition k_original_dialogue :: pystr where "k_original_dialogue = str_of ''original_dialogue''"

text \<open>The part of the final rendering that shows the initial dialogue; the same
  statements in \<open>save_final_dialogue\<close> and \<open>update_final_dialogue_files\<close>.\<close>

definition initial_part_writes :: "pydict \<Rightarrow> (error + md_chunk list) list" where
  "initial_part_writes initial_dialogue_data =
     (if initial_dialogue_data \<noteq> [] \<and> dict_has initial_dialogue_data k_original_text then
        [Inr [Txt t_initial_heading],
         Inr [Txt t_fence_open],
         write_str (dict_get initial_dialogue_data k_original_text JNull),
         Inr [Txt t_fence_close]]
        @ (if dict_has initial_dialogue_data k_key_points
              \<and> truthy (dict_get initial_dialogue_data k_key_points JNull)
           then [Inr [Txt t_key_points_subheading]]
                @ bullets (dict_get initial_dialogue_data k_key_points JNull)
                @ [Inr [Txt t_nl]]
           else [])
        @ (if dict_has initial_dialogue_data k_intentions
              \<and> truthy (dict_get initial_dialogue_data k_intentions JNull)
           then [Inr [Txt t_intentions_subheading]]
                @ bullets (dict_get initial_dialogue_data k_intentions JNull)
           else [])
      else [])"

definition traits_and_text_writes ::
  "pystr \<Rightarrow> pystr \<Rightarrow> pystr option \<Rightarrow> (error + md_chunk list) list" where
  "traits_and_text_writes user_traits ai_traits dialogue_text =
     [Inr [Txt t_traits_heading],
      Inr [Txt t_user_traits, Txt user_traits, Txt t_nl2],
      Inr [Txt t_ai_traits, Txt ai_traits, Txt t_nl2],
      Inr [Txt t_final_heading],
      Inr [Txt t_fence_open],
      write_str (response_value dialogue_text),
      Inr [Txt t_fence_close]]"

text \<open>\<open>metadata\<close> as \<open>save_final_dialogue\<close> and \<open>update_final_dialogue_files\<close> take
  it from the draft they are given.\<close>

definition draft_metadata :: "pydict \<Rightarrow> json option" where
  "draft_metadata initial_dialogue_data =
     (if initial_dialogue_data \<noteq> [] then map_of initial_dialogue_data k_metadata else None)"

definition save_final_dialogue_try ::
  "world \<Rightarrow> pystr option \<Rightarrow> pydict \<Rightarrow> pystr \<Rightarrow> pystr \<Rightarrow>
   (error + pystr option \<times> pystr option) \<times> world" where
  "save_final_dialogue_try w dialogue_text initial_dialogue_data user_traits ai_traits =
     (let save_dir = str_of ''final_dialogue_data'' in
      case ensure_dir w save_dir of
        (Inl e, w1) \<Rightarrow> (Inl e, w1)
      | (Inr u, w1) \<Rightarrow>
          (case (case draft_metadata initial_dialogue_data of None \<Rightarrow> JObj [] | Some m \<Rightarrow> m) of
             JObj metadata \<Rightarrow>
               (let context = dict_get metadata k_context (JStr []);
                    goal = dict_get metadata k_goal (JStr []);
                    (timestamp, w2) = now w1;
                    (uid, w3) = uuid4 w2;
                    unique_id = take 8 uid
                in case context of
                     JStr ctx \<Rightarrow>
                       (let safe_context = safe_context_of w3 ctx;
                            base_filename = timestamp @ str_of ''_'' @ safe_context
                                            @ str_of ''_final_'' @ unique_id;
                            json_filename = save_dir @ str_of ''/'' @ base_filename @ str_of ''.json'';
                            md_filename = save_dir @ str_of ''/'' @ base_filename @ str_of ''.md'';
                            final_dialogue_data =
                              [(k_final_text, response_value dialogue_text),
                               (k_user_traits, JStr user_traits),
                               (k_ai_traits, JStr ai_traits),
                               (k_original_dialogue, JObj initial_dialogue_data),
                               (k_metadata,
                                JObj [(k_timestamp, JStr timestamp), (k_context, context),
                                      (k_goal, goal)])]
                        in case write_json_file w3 json_filename (JObj final_dialogue_data) of
                             (Inl e, w4) \<Rightarrow> (Inl e, w4)
                           | (Inr u, w4) \<Rightarrow>
                               (case write_md_file w4 md_filename
                                       ([Inr [Txt t_final_title, Txt (take 30 ctx), Txt t_dots],
                                         Inr [Txt t_time, Txt timestamp, Txt t_nl2],
                                         Inr [Txt t_context, Txt ctx, Txt t_nl2],
                                         Inr [Txt t_goal, Val goal, Txt t_nl2]]
                                        @ traits_and_text_writes user_traits ai_traits dialogue_text
                                        @ initial_part_writes initial_dialogue_data) of
                                  (Inl e, w5) \<Rightarrow> (Inl e, w5)
                                | (Inr u, w5) \<Rightarrow>
                                    (Inr (Some json_filename, Some md_filename), w5)))
                   | _ \<Rightarrow> (Inl TypeError, w3))
           | _ \<Rightarrow> (Inl AttributeError, w1)))"

definition save_final_dialogue ::
  "world \<Rightarrow> pystr option \<Rightarrow> pydict \<Rightarrow> pystr \<Rightarrow> pystr \<Rightarrow>
   (error + pystr option \<times> pystr option) \<times> world" where
  "save_final_dialogue w dialogue_text initial_dialogue_data user_traits ai_traits =
     catch_all (save_final_dialogue_try w dialogue_text initial_dialogue_data user_traits ai_traits)"

text \<open>\<open>v[:30]\<close>: strings and lists can be sliced, nothing else.\<close>

definition slice30 :: "json \<Rightarrow> error + json" where
  "slice30 v =
     (case v of
        JStr t \<Rightarrow> Inr (JStr (take 30 t))
      | JArr xs \<Rightarrow> Inr (JArr (take 30 xs))
      | _ \<Rightarrow> Inl TypeError)"

definition final_header_writes :: "json \<Rightarrow> (error + md_chunk list) list" where
  "final_header_writes metadata =
     (case metadata of
        JObj md \<Rightarrow>
          [(case slice30 (dict_get md k_context (JStr [])) of
              Inl e \<Rightarrow> Inl e
            | Inr v \<Rightarrow> Inr [Txt t_final_title, Val v, Txt t_dots]),
           Inr [Txt t_time, Val (dict_get md k_timestamp (JStr [])), Txt t_nl2],
           Inr [Txt t_context, Val (dict_get md k_context (JStr [])), Txt t_nl2],
           Inr [Txt t_goal, Val (dict_get md k_goal (JStr [])), Txt t_nl2]]
      | _ \<Rightarrow> [Inl AttributeError])"

definition update_final_dialogue_files_rest ::
  "world \<Rightarrow> pystr \<Rightarrow> pystr option \<Rightarrow> pydict \<Rightarrow> pystr \<Rightarrow> pystr \<Rightarrow>
   (error + pystr option \<times> pystr option) \<times> world" where
  "update_final_dialogue_files_rest w json_path dialogue_text initial_dialogue_data
       user_traits ai_traits =
     (let base_path = splitext_root json_path;
          md_path = base_path @ str_of ''.md'';
          (timestamp, w1) = now w;
          metadata =
            (case draft_metadata initial_dialogue_data of
               None \<Rightarrow> JObj [(k_timestamp, JStr timestamp), (k_context, JStr []), (k_goal, JStr [])]
             | Some m \<Rightarrow> m);
          final_dialogue_data =
            [(k_final_text, response_value dialogue_text),
             (k_user_traits, JStr user_traits),
             (k_ai_traits, JStr ai_traits),
             (k_original_dialogue, JObj initial_dialogue_data),
             (k_metadata, metadata)]
      in case write_json_file w1 json_path (JObj final_dialogue_data) of
           (Inl e, w2) \<Rightarrow> (Inl e, w2)
         | (Inr u, w2) \<Rightarrow>
             (case write_md_file w2 md_path
                     (final_header_writes metadata
                      @ traits_and_text_writes user_traits ai_traits dialogue_text
                      @ initial_part_writes initial_dialogue_data) of
                (Inl e, w3) \<Rightarrow> (Inl e, w3)
              | (Inr u, w3) \<Rightarrow> (Inr (Some json_path, Some md_path), w3)))"

definition update_final_dialogue_files_try ::
  "world \<Rightarrow> pystr option \<Rightarrow> pystr option \<Rightarrow> pydict \<Rightarrow> pystr \<Rightarrow> pystr \<Rightarrow>
   (error + pystr option \<times> pystr option) \<times> world" where
  "update_final_dialogue_files_try w json_path dialogue_text initial_dialogue_data
       user_traits ai_traits =
     (case json_path of
        None \<Rightarrow> save_final_dialogue w dialogue_text initial_dialogue_data user_traits ai_traits
      | Some p \<Rightarrow>
          if path_missing w json_path
          then save_final_dialogue w dialogue_text initial_dialogue_data user_traits ai_traits
          else update_final_dialogue_files_rest w p dialogue_text initial_dialogue_data
                 user_traits ai_traits)"

definition update_final_dialogue_files ::
  "world \<Rightarrow> pystr option \<Rightarrow> pystr option \<Rightarrow> pydict \<Rightarrow> pystr \<Rightarrow> pystr \<Rightarrow>
   (error + pystr option \<times> pystr option) \<times> world" where
  "update_final_dialogue_files w json_path dialogue_text initial_dialogue_data
       user_traits ai_traits =
     catch_all (update_final_dialogue_files_try w json_path dialogue_text initial_dialogue_data
                  user_traits ai_traits)"

section \<open>Orchestration Controller\<close>

text \<open>
  The controller is the script \<open>main\<close>, run once per user interaction over the
  session state. A run is modelled section by section; its widgets' values and
  the clicked button are the inputs of the run. The log lists, in order, the
  messages shown and the agent and store calls made. An exception that nothing
  catches ends the run and is returned beside the state reached.
\<close>

datatype work_mode = Collaborative | Automatic

record session =
  dialogue_data :: "pydict option"
  dialogue_edited :: bool
  saved_path :: "(pystr option \<times> pystr option) option"
  final_dialogue :: "pystr option"
  final_dialogue_edited :: bool
  final_saved_path :: "(pystr option \<times> pystr option) option"

record app =
  ss :: session
  fs :: world
  log :: "event list"

definition say :: "event list \<Rightarrow> app \<Rightarrow> app" where
  "say evs a = a\<lparr>log := log a @ evs\<rparr>"

text \<open>\<open>saved_paths and saved_paths[0]\<close>\<close>

definition first_path_set :: "pystr option \<times> pystr option \<Rightarrow> bool" where
  "first_path_set paths = (case fst paths of None \<Rightarrow> False | Some p \<Rightarrow> p \<noteq> [])"

text \<open>The automatic-mode continuation after the draft has been saved.\<close>

definition auto_style ::
  "(prompt \<Rightarrow> pystr option) \<Rightarrow> pydict \<Rightarrow> pystr \<Rightarrow> pystr \<Rightarrow> pystr \<Rightarrow> app \<Rightarrow> error option \<times> app" where
  "auto_style gw d user_traits ai_traits language a =
     (let a1 = say [StyleAgentInvoked] a in
      case adapt_dialogue gw d user_traits ai_traits (Some language) of
        (Inl e, evs) \<Rightarrow> (Some e, say evs a1)
      | (Inr adapted_dialogue, evs) \<Rightarrow>
          (let a2 = (say evs a1)\<lparr>ss := (ss a1)\<lparr>final_dialogue := adapted_dialogue,
                                                  final_dialogue_edited := False\<rparr>\<rparr>;
               (saved, w') =
                 save_final_dialogue (fs a2) adapted_dialogue d user_traits ai_traits;
               a3 = say [CreateFinal] (a2\<lparr>fs := w'\<rparr>)
           in case saved of
                Inl e \<Rightarrow> (Some e, a3)
              | Inr final_saved_paths \<Rightarrow>
                  (None, say [StSuccess]
                           (a3\<lparr>ss := (ss a3)\<lparr>final_saved_path := Some final_saved_paths\<rparr>\<rparr>))))"

text \<open>The handler of the button that generates the initial dialogue.\<close>

definition on_generate ::
  "(pystr \<Rightarrow> error + pydict) \<Rightarrow> (prompt \<Rightarrow> pystr option) \<Rightarrow> work_mode \<Rightarrow>
   pystr \<Rightarrow> pystr \<Rightarrow> pystr \<Rightarrow> pystr \<Rightarrow> pystr \<Rightarrow> int \<Rightarrow> pystr \<Rightarrow> pystr \<Rightarrow>
   app \<Rightarrow> error option \<times> app" where
  "on_generate loads gw mode context dialogue_mode goal language difficulty num_turns
       user_traits ai_traits a =
     (if context = [] \<or> goal = [] then (None, say [StError MissingInput] a)
      else
        (let (r, evs) = generate_dialogue loads gw context dialogue_mode goal language
                          difficulty num_turns;
             a1 = say (DraftAgentInvoked # evs) a
         in case r of
              Inl e \<Rightarrow> (Some e, a1)
            | Inr d \<Rightarrow>
                if d \<noteq> [] \<and> dict_has d k_original_text then
                  (let a2 = a1\<lparr>ss := (ss a1)\<lparr>dialogue_data := Some d, dialogue_edited := False\<rparr>\<rparr>;
                       (saved, w') = save_dialogue_data (fs a2) d context goal;
                       a3 = say [CreateDraft] (a2\<lparr>fs := w'\<rparr>)
                   in case saved of
                        Inl e \<Rightarrow> (Some e, a3)
                      | Inr saved_paths \<Rightarrow>
                          if first_path_set saved_paths then
                            (let a4 = say [StSuccess]
                                        (a3\<lparr>ss := (ss a3)\<lparr>saved_path := Some saved_paths\<rparr>\<rparr>)
                             in if mode = Automatic \<and> user_traits \<noteq> [] \<and> ai_traits \<noteq> []
                                then auto_style gw d user_traits ai_traits language a4
                                else if mode = Automatic \<and> (user_traits = [] \<or> ai_traits = [])
                                then (None, say [StWarning] a4)
                                else (None, a4))
                          else (None, a3))
                else (None, say [StError GenerationFailed] a1)))"

text \<open>\<open>"\n".join(v)\<close>: \<open>TypeError\<close> unless \<open>v\<close> can be iterated and gives strings.\<close>

fun join_lines :: "json list \<Rightarrow> error + pystr" where
  "join_lines [] = Inr []"
| "join_lines [JStr s] = Inr s"
| "join_lines (JStr s # x # xs) =
     (case join_lines (x # xs) of Inl e \<Rightarrow> Inl e | Inr t \<Rightarrow> Inr (s @ [10] @ t))"
| "join_lines _ = Inl TypeError"

definition py_join :: "json \<Rightarrow> error + pystr" where
  "py_join v = (case py_iter v of Inl e \<Rightarrow> Inl e | Inr items \<Rightarrow> join_lines items)"

text \<open>\<open>s.split("\n")\<close> and \<open>[p.strip() for p in s.split("\n") if p.strip()]\<close>\<close>

fun py_split :: "nat \<Rightarrow> pystr \<Rightarrow> pystr list" where
  "py_split c [] = [[]]"
| "py_split c (x # xs) =
     (if x = c then [] # py_split c xs
      else (case py_split c xs of [] \<Rightarrow> [[x]] | y # ys \<Rightarrow> (x # y) # ys))"

definition stripped_lines :: "world \<Rightarrow> pystr \<Rightarrow> pystr list" where
  "stripped_lines w s = filter (\<lambda>p. p \<noteq> []) (map (py_strip w) (py_split 10 s))"

text \<open>The comparison of the edit widgets with the stored draft. The text
  widget gives a string, or \<open>None\<close> when it was created with the value
  \<open>None\<close> and has not been typed into.\<close>

definition edit_differs :: "pydict \<Rightarrow> pystr option \<Rightarrow> pystr list \<Rightarrow> pystr list \<Rightarrow> bool" where
  "edit_differs d edited_text edited_key_points_list edited_intentions_list =
     (response_value edited_text \<noteq> dict_get d k_original_text (JStr [])
      \<or> JArr (map JStr edited_key_points_list) \<noteq> dict_get d k_key_points (JArr [])
      \<or> JArr (map JStr edited_intentions_list) \<noteq> dict_get d k_intentions (JArr []))"

text \<open>
  The section of \<open>main\<close> that shows the initial dialogue. It first repeats the
  message about the saved paths when there are any. In human-in-the-loop mode
  the three edit widgets hold \<open>edited_text\<close>, \<open>edited_key_points\<close> and
  \<open>edited_intentions\<close>; \<open>confirm\<close> says whether the confirm button was clicked.
  In automatic mode the draft is only displayed.
\<close>

definition draft_section ::
  "work_mode \<Rightarrow> pystr \<Rightarrow> pystr \<Rightarrow> pystr option \<Rightarrow> pystr \<Rightarrow> pystr \<Rightarrow> bool \<Rightarrow> app \<Rightarrow>
   error option \<times> app" where
  "draft_section mode context goal edited_text edited_key_points edited_intentions confirm a =
     (case dialogue_data (ss a) of
        None \<Rightarrow> (None, a)
      | Some d \<Rightarrow>
          (let a0 = (if saved_path (ss a) \<noteq> None then say [StSuccess] a else a) in
          if mode = Collaborative then
            (case py_join (dict_get d k_key_points (JArr [])) of
               Inl e \<Rightarrow> (Some e, a0)
             | Inr key_points_text \<Rightarrow>
                 (case py_join (dict_get d k_intentions (JArr [])) of
                    Inl e \<Rightarrow> (Some e, a0)
                  | Inr intentions_text \<Rightarrow>
                      (let edited_key_points_list = stripped_lines (fs a0) edited_key_points;
                           edited_intentions_list = stripped_lines (fs a0) edited_intentions;
                           a1 = (if edit_differs d edited_text edited_key_points_list
                                      edited_intentions_list
                                 then a0\<lparr>ss := (ss a0)\<lparr>dialogue_edited := True,
                                        dialogue_data :=
                                          Some [(k_original_text, response_value edited_text),
                                                (k_key_points, JArr (map JStr edited_key_points_list)),
                                                (k_intentions, JArr (map JStr edited_intentions_list))]\<rparr>\<rparr>
                                 else a0)
                       in if confirm then
                            (let a2 = say [StSuccess] a1 in
                             if dialogue_edited (ss a2) then
                               (case (saved_path (ss a2), dialogue_data (ss a2)) of
                                  (Some paths, Some d') \<Rightarrow>
                                    (let (saved, w') =
                                           update_dialogue_files (fs a2) (fst paths) d' context goal;
                                         a3 = say [UpdateDraft] (a2\<lparr>fs := w'\<rparr>)
                                     in case saved of
                                          Inl e \<Rightarrow> (Some e, a3)
                                        | Inr saved_paths \<Rightarrow>
                                            (None, say [StSuccess]
                                               (a3\<lparr>ss := (ss a3)\<lparr>saved_path := Some saved_paths\<rparr>\<rparr>)))
                                | _ \<Rightarrow> (Some TypeError, a2))
                             else (None, a2))
                          else (None, a1))))
          else (None, a0)))"

text \<open>A sequence of runs of that section; it stops at a run that raises.\<close>

fun draft_runs ::
  "pystr \<Rightarrow> pystr \<Rightarrow> (pystr option \<times> pystr \<times> pystr \<times> bool) list \<Rightarrow> app \<Rightarrow>
   error option \<times> app" where
  "draft_runs context goal [] a = (None, a)"
| "draft_runs context goal ((t, k, i, confirm) # runs) a =
     (case draft_section Collaborative context goal t k i confirm a of
        (Some e, a') \<Rightarrow> (Some e, a')
      | (None, a') \<Rightarrow> draft_runs context goal runs a')"

text \<open>The widgets show the stored draft unchanged.\<close>

definition shows_stored :: "app \<Rightarrow> pystr option \<times> pystr \<times> pystr \<times> bool \<Rightarrow> bool" where
  "shows_stored a run =
     (case (dialogue_data (ss a), run) of
        (Some d, (t, k, i, confirm)) \<Rightarrow>
          \<not> edit_differs d t (stripped_lines (fs a) k) (stripped_lines (fs a) i)
      | (None, _) \<Rightarrow> True)"

section \<open>A sample world\<close>

text \<open>
  For the examples: the character classes on ASCII, an empty disk, a clock whose
  \<open>n\<close>-th reading ends in the digit \<open>n\<close>, a fixed identifier, and a console that
  can print the handlers' messages.
\<close>

definition ascii_word :: "nat \<Rightarrow> bool" where
  "ascii_word c = ((48 \<le> c \<and> c \<le> 57) \<or> (65 \<le> c \<and> c \<le> 90) \<or> (97 \<le> c \<and> c \<le> 122) \<or> c = 95)"

definition ascii_space :: "nat \<Rightarrow> bool" where
  "ascii_space c = ((9 \<le> c \<and> c \<le> 13) \<or> (28 \<le> c \<and> c \<le> 32))"

definition world0 :: world where
  "world0 =
     \<lparr>files = Map.empty, dirs = [], denied = [],
      clock = (\<lambda>n. str_of ''20260101_12000'' @ [48 + n]), tick = 0,
      uuids = (\<lambda>n. str_of ''1b9d6bcd-bbfd-4b2d-9b5d-ab8dfbbd4bed''), drawn = 0,
      is_word = ascii_word, is_space = ascii_space, stdout_ok = True\<rparr>"

definition session0 :: session where
  "session0 =
     \<lparr>dialogue_data = None, dialogue_edited = False, saved_path = None,
      final_dialogue = None, final_dialogue_edited = False, final_saved_path = None\<rparr>"

definition app0 :: app where
  "app0 = \<lparr>ss = session0, fs = world0, log = []\<rparr>"

text \<open>The parameters of the spec's end-to-end scenario, a gateway answer without
  braces, and the paths \<open>save_dialogue_data\<close> builds from them in \<open>world0\<close>.\<close>

definition sample_context :: pystr where "sample_context = str_of ''cafe meeting''"
definition sample_goal :: pystr where "sample_goal = str_of ''exchange contacts''"
definition sample_text :: pystr where "sample_text = str_of ''A: hi''"
definition sample_timestamp :: pystr where "sample_timestamp = str_of ''20260101_120000''"

definition sample_base :: pystr where
  "sample_base = str_of ''dialogue_data/20260101_120000_cafe_meeting_1b9d6bcd''"

definition sample_json_path :: pystr where
  "sample_json_path = sample_base @ str_of ''.json''"

definition sample_md_path :: pystr where
  "sample_md_path = sample_base @ str_of ''.md''"

text \<open>A gateway that gives the same answer to every prompt.\<close>

definition gw_const :: "pystr option \<Rightarrow> prompt \<Rightarrow> pystr option" where
  "gw_const r p = r"

text \<open>The common part of the two paths that \<open>save_dialogue_data\<close> builds in the
  world \<open>w\<close>: the directory, the timestamp, the sanitized context and the
  first eight characters of the identifier.\<close>

definition draft_base :: "world \<Rightarrow> pystr \<Rightarrow> pystr" where
  "draft_base w context =
     str_of ''dialogue_data'' @ str_of ''/''
     @ (clock w (tick w) @ str_of ''_'' @ safe_context_of w context @ str_of ''_''
        @ take 8 (uuids w (drawn w)))"

text \<open>The common part of the two paths that \<open>save_final_dialogue\<close> builds, and
  the record that \<open>save_final_dialogue\<close> and \<open>update_final_dialogue_files\<close> store.\<close>

definition final_base :: "world \<Rightarrow> pystr \<Rightarrow> pystr" where
  "final_base w ctx =
     str_of ''final_dialogue_data'' @ str_of ''/''
     @ (clock w (tick w) @ str_of ''_'' @ safe_context_of w ctx @ str_of ''_final_''
        @ take 8 (uuids w (drawn w)))"

definition final_record ::
  "pystr option \<Rightarrow> pydict \<Rightarrow> pystr \<Rightarrow> pystr \<Rightarrow> json \<Rightarrow> pydict" where
  "final_record dialogue_text initial_dialogue_data user_traits ai_traits metadata =
     [(k_final_text, response_value dialogue_text),
      (k_user_traits, JStr user_traits),
      (k_ai_traits, JStr ai_traits),
      (k_original_dialogue, JObj initial_dialogue_data),
      (k_metadata, metadata)]"

text \<open>More of the scenario: the personas, a styled text, the next reading of the
  clock, a timestamp of an earlier day, and the sample draft as it is stored
  with that earlier timestamp.\<close>

definition sample_user_traits :: pystr where "sample_user_traits = str_of ''shy engineer''"
definition sample_ai_traits :: pystr where "sample_ai_traits = str_of ''outgoing writer''"
definition sample_final_text :: pystr where "sample_final_text = str_of ''B: hey''"
definition sample_next_timestamp :: pystr where "sample_next_timestamp = str_of ''20260101_120001''"
definition sample_old_timestamp :: pystr where "sample_old_timestamp = str_of ''20251231_235959''"

definition sample_stored_draft :: pydict where
  "sample_stored_draft =
     dict_set (raw_draft (Some sample_text)) k_metadata
       (fresh_metadata sample_old_timestamp sample_context sample_goal)"

definition sample_final_base :: pystr where
  "sample_final_base = str_of ''final_dialogue_data/20260101_120000_cafe_meeting_final_1b9d6bcd''"

definition sample_plain_final_base :: pystr where
  "sample_plain_final_base = str_of ''final_dialogue_data/20260101_120000__final_1b9d6bcd''"

text \<open>An edited draft that carries a metadata of the caller's own.\<close>

definition edited_draft :: pydict where
  "edited_draft =
     dict_set (raw_draft (Some (str_of ''A: hello''))) k_metadata (JStr (str_of ''mine''))"

text \<open>The state after the draft \<open>d\<close> has been generated and saved: what
  \<open>on_generate\<close> has done when it reaches the test of the mode.\<close>

definition saved_state :: "app \<Rightarrow> pydict \<Rightarrow> pystr option \<times> pystr option \<Rightarrow> world \<Rightarrow> app" where
  "saved_state a d paths w' =
     a\<lparr>ss := (ss a)\<lparr>dialogue_data := Some d, dialogue_edited := False,
                     saved_path := Some paths\<rparr>,
       fs := w',
       log := log a @ [DraftAgentInvoked, CreateDraft, StSuccess]\<rparr>"

text \<open>The sample session: the sample draft generated in human-in-the-loop
  mode, then one run of the draft section in which the text is edited and the
  confirm button is clicked.\<close>

definition sample_generated :: app where
  "sample_generated =
     snd (on_generate loads_sample (gw_const (Some sample_text)) Collaborative sample_context
            (str_of ''AI'') sample_goal lang_en (str_of ''B1'') 5 [] [] app0)"

definition sample_edit :: pystr where "sample_edit = str_of ''A: hello''"

definition sample_confirmed :: app where
  "sample_confirmed =
     snd (draft_section Collaborative sample_context sample_goal (Some sample_edit) [] [] True
            sample_generated)"

text \<open>The disk after the sample draft has been created in \<open>world0\<close>, and a text
  that holds the lone surrogate U+D800, which \<open>json.loads\<close> gives for its escape.\<close>

definition sample_saved :: world where
  "sample_saved =
     snd (save_dialogue_data world0 (raw_draft (Some sample_text)) sample_context sample_goal)"

definition sample_surrogate_text :: pystr where
  "sample_surrogate_text = [55296]"


section \<open>Draft Agent: what is parsed and what is returned\<close>

lemma py_find_neg_iff: "(py_find c s < 0) = (c \<notin> set s)"
  by (induction s) (auto simp: Let_def)

lemma py_find_first: "c \<notin> set pre \<Longrightarrow> py_find c (pre @ c # rest) = int (length pre)"
  by (induction pre) (auto simp: Let_def)

lemma py_rfind_last: "c \<notin> set post \<Longrightarrow> py_rfind c (xs @ c # post) = int (length xs)"
  using py_find_first [of c "rev post" "rev xs"]
  by (simp add: py_rfind_def)

lemma json_span_decomp:
  assumes "LBRACE \<notin> set pre" and "RBRACE \<notin> set post"
  shows "json_span (pre @ LBRACE # mid @ RBRACE # post) = LBRACE # mid @ [RBRACE]"
proof -
  let ?r = "pre @ LBRACE # mid @ RBRACE # post"
  have f: "py_find LBRACE ?r = int (length pre)"
    using assms(1) by (rule py_find_first)
  have "py_rfind RBRACE ((pre @ LBRACE # mid) @ RBRACE # post) = int (length (pre @ LBRACE # mid))"
    using assms(2) by (rule py_rfind_last)
  then have r: "py_rfind RBRACE ?r = int (length pre + 1 + length mid)"
    by simp
  have lo: "slice_index (length ?r) (int (length pre)) = length pre"
    by (simp add: slice_index_def)
  have "int (length pre + 1 + length mid) + 1 = int (length pre + length mid + 2)"
    by simp
  then have hi: "slice_index (length ?r) (int (length pre + 1 + length mid) + 1)
                   = length pre + length mid + 2"
    by (simp add: slice_index_def del: of_nat_add)
  have "take (length mid + 2) (LBRACE # mid @ RBRACE # post) = LBRACE # mid @ [RBRACE]"
    by simp
  then show ?thesis
    unfolding json_span_def f r py_slice_def Let_def lo hi
    by simp
qed

lemma text_nonempty_raw_draft: "r \<noteq> [] \<Longrightarrow> text_nonempty (raw_draft (Some r))"
  by (simp add: text_nonempty_def raw_draft_def response_value_def)

lemma parse_response_total:
  assumes "\<forall>s e. loads s = Inl e \<longrightarrow> e = JSONDecodeError"
  shows "\<exists>d. parse_response loads response = Inr d \<and>
           (\<forall>r. response = Some r \<longrightarrow> r \<noteq> [] \<longrightarrow>
                loads (json_span r) = Inr d \<or> (d = raw_draft (Some r) \<and> text_nonempty d))"
proof (cases response)
  case None
  then show ?thesis by (simp add: parse_response_def)
next
  case (Some r)
  show ?thesis
  proof (cases "loads (json_span r)")
    case (Inl e)
    with assms have "e = JSONDecodeError" by blast
    with Inl Some text_nonempty_raw_draft [of r] show ?thesis
      by (auto simp: parse_response_def)
  next
    case (Inr d)
    with Some text_nonempty_raw_draft [of r] show ?thesis
      by (auto simp: parse_response_def)
  qed
qed

text \<open>
  C1, as amended. \<open>generate_dialogue\<close> returns a draft and raises nothing for
  every answer of the gateway, a failed call included, as long as \<open>json.loads\<close>
  raises nothing but \<open>JSONDecodeError\<close>. When the gateway answered a non-empty
  text, the draft is either the object decoded from the span, returned as it
  is, or the degraded draft, whose text is the whole answer and hence a
  non-empty string.
\<close>

theorem generate_dialogue_degrades:
  assumes "\<forall>s e. loads s = Inl e \<longrightarrow> e = JSONDecodeError"
  shows "\<exists>d. fst (generate_dialogue loads gw context dialogue_mode goal language
                    difficulty num_turns) = Inr d \<and>
           (\<forall>r. gw (build_generation_prompt context dialogue_mode goal language
                      difficulty num_turns) = Some r \<longrightarrow> r \<noteq> [] \<longrightarrow>
                loads (json_span r) = Inr d \<or> (d = raw_draft (Some r) \<and> text_nonempty d))"
proof -
  let ?p = "build_generation_prompt context dialogue_mode goal language difficulty num_turns"
  have g: "fst (generate_dialogue loads gw context dialogue_mode goal language
                  difficulty num_turns) = parse_response loads (gw ?p)"
    by (simp add: generate_dialogue_def call_llm_api_def split: option.splits)
  from parse_response_total [OF assms, of "gw ?p"] show ?thesis
    unfolding g by simp
qed

theorem generate_dialogue_degrades_witness:
  "fst (generate_dialogue loads_sample (gw_const (Some (str_of ''A: hi'')))
          (str_of ''cafe meeting'') (str_of ''AI'') (str_of ''exchange contacts'')
          (str_of ''English'') (str_of ''B1'') 5)
     = Inr (raw_draft (Some (str_of ''A: hi'')))
   \<and> text_nonempty (raw_draft (Some (str_of ''A: hi'')))"
proof -
  have h: "\<forall>s e. loads_sample s = Inl e \<longrightarrow> e = JSONDecodeError"
    by (simp add: loads_sample_def)
  have n: "loads_sample (json_span (str_of ''A: hi'')) = Inl JSONDecodeError"
    by (simp add: loads_sample_def json_span_def py_slice_def slice_index_def py_rfind_def
          LBRACE_def RBRACE_def)
  from generate_dialogue_degrades [OF h, of "gw_const (Some (str_of ''A: hi''))"
      "str_of ''cafe meeting''" "str_of ''AI''" "str_of ''exchange contacts''"
      "str_of ''English''" "str_of ''B1''" 5]
  obtain d where
    d1: "fst (generate_dialogue loads_sample (gw_const (Some (str_of ''A: hi'')))
                (str_of ''cafe meeting'') (str_of ''AI'') (str_of ''exchange contacts'')
                (str_of ''English'') (str_of ''B1'') 5) = Inr d"
    and d2: "\<forall>r. gw_const (Some (str_of ''A: hi''))
                   (build_generation_prompt (str_of ''cafe meeting'') (str_of ''AI'')
                      (str_of ''exchange contacts'') (str_of ''English'') (str_of ''B1'') 5)
                 = Some r \<longrightarrow> r \<noteq> [] \<longrightarrow>
               loads_sample (json_span r) = Inr d \<or> (d = raw_draft (Some r) \<and> text_nonempty d)"
    by blast
  from d2 have "loads_sample (json_span (str_of ''A: hi'')) = Inr d
                \<or> (d = raw_draft (Some (str_of ''A: hi'')) \<and> text_nonempty d)"
    by (simp add: gw_const_def)
  with n have "d = raw_draft (Some (str_of ''A: hi'')) \<and> text_nonempty d"
    by auto
  with d1 show ?thesis by blast
qed

text \<open>
  C1 as stated fails. When the gateway call fails, the returned draft's text is
  \<open>None\<close>; and when the answer is the text \<open>{}\<close>, the decoded object is returned
  and has no text at all.
\<close>

theorem generate_dialogue_text_counterexample:
  "fst (generate_dialogue loads_sample (gw_const None)
          (str_of ''cafe meeting'') (str_of ''AI'') (str_of ''exchange contacts'')
          (str_of ''English'') (str_of ''B1'') 5) = Inr (raw_draft None)
   \<and> map_of (raw_draft None) k_original_text = Some JNull
   \<and> \<not> text_nonempty (raw_draft None)
   \<and> fst (generate_dialogue loads_sample (gw_const (Some (str_of ''{}'')))
          (str_of ''cafe meeting'') (str_of ''AI'') (str_of ''exchange contacts'')
          (str_of ''English'') (str_of ''B1'') 5) = Inr []
   \<and> \<not> text_nonempty []"
  by (simp add: generate_dialogue_def call_llm_api_def gw_const_def parse_response_def
        loads_sample_def json_span_def py_slice_def slice_index_def py_rfind_def
        LBRACE_def RBRACE_def text_nonempty_def raw_draft_def response_value_def)

text \<open>
  C2, as amended. The span that is parsed runs from the first opening brace to
  the last closing brace of the answer: when the answer is
  \<open>pre @ { # mid @ } # post\<close> with no opening brace in \<open>pre\<close> and no closing brace
  in \<open>post\<close>, exactly \<open>{ # mid @ [}]\<close> is given to \<open>json.loads\<close>; its result is
  returned, and the degraded draft is returned when it raises
  \<open>JSONDecodeError\<close>. An answer that lacks either brace gives the degraded draft.
\<close>

theorem parse_response_first_to_last_brace:
  "(LBRACE \<notin> set pre \<longrightarrow> RBRACE \<notin> set post \<longrightarrow>
      json_span (pre @ LBRACE # mid @ RBRACE # post) = LBRACE # mid @ [RBRACE]
      \<and> parse_response loads (Some (pre @ LBRACE # mid @ RBRACE # post)) =
          (case loads (LBRACE # mid @ [RBRACE]) of
             Inr d \<Rightarrow> Inr d
           | Inl JSONDecodeError \<Rightarrow> Inr (raw_draft (Some (pre @ LBRACE # mid @ RBRACE # post)))
           | Inl e \<Rightarrow> Inl e))
   \<and> (LBRACE \<notin> set r \<or> RBRACE \<notin> set r \<longrightarrow>
        parse_response loads (Some r) = Inr (raw_draft (Some r)))"
proof (intro conjI impI)
  assume a: "LBRACE \<notin> set pre" "RBRACE \<notin> set post"
  show s: "json_span (pre @ LBRACE # mid @ RBRACE # post) = LBRACE # mid @ [RBRACE]"
    using a by (rule json_span_decomp)
  show "parse_response loads (Some (pre @ LBRACE # mid @ RBRACE # post)) =
          (case loads (LBRACE # mid @ [RBRACE]) of
             Inr d \<Rightarrow> Inr d
           | Inl JSONDecodeError \<Rightarrow> Inr (raw_draft (Some (pre @ LBRACE # mid @ RBRACE # post)))
           | Inl e \<Rightarrow> Inl e)"
    using s by (simp add: parse_response_def)
next
  assume "LBRACE \<notin> set r \<or> RBRACE \<notin> set r"
  then show "parse_response loads (Some r) = Inr (raw_draft (Some r))"
    by (auto simp: parse_response_def)
qed

theorem parse_response_first_to_last_brace_witness:
  "parse_response loads_sample (Some (str_of ''ok: {} done'')) = Inr []
   \<and> parse_response loads_sample (Some (str_of ''no braces''))
       = Inr (raw_draft (Some (str_of ''no braces'')))"
proof -
  have b: "LBRACE \<notin> set (str_of ''ok: '')" "RBRACE \<notin> set (str_of '' done'')"
    "LBRACE \<notin> set (str_of ''no braces'') \<or> RBRACE \<notin> set (str_of ''no braces'')"
    by (simp_all add: LBRACE_def RBRACE_def)
  have e: "str_of ''ok: {} done'' = str_of ''ok: '' @ LBRACE # [] @ RBRACE # str_of '' done''"
    by (simp add: LBRACE_def RBRACE_def)
  have l: "loads_sample (LBRACE # [] @ [RBRACE]) = Inr []"
    by (simp add: loads_sample_def LBRACE_def RBRACE_def)
  from parse_response_first_to_last_brace [of "str_of ''ok: ''" "str_of '' done''" "[]"
      loads_sample "str_of ''no braces''"] b
  have "parse_response loads_sample (Some (str_of ''ok: '' @ LBRACE # [] @ RBRACE # str_of '' done''))
          = (case loads_sample (LBRACE # [] @ [RBRACE]) of
               Inr d \<Rightarrow> Inr d
             | Inl JSONDecodeError \<Rightarrow>
                 Inr (raw_draft (Some (str_of ''ok: '' @ LBRACE # [] @ RBRACE # str_of '' done'')))
             | Inl e \<Rightarrow> Inl e)"
    and "parse_response loads_sample (Some (str_of ''no braces''))
           = Inr (raw_draft (Some (str_of ''no braces'')))"
    by blast+
  then show ?thesis
    unfolding l e [symmetric] by simp
qed

text \<open>
  C2 as stated fails. In the answer \<open>{}{}\<close> the first balanced span is \<open>{}\<close>,
  which decodes; the span the agent parses is the whole \<open>{}{}\<close>, which does not,
  and the degraded draft is returned.
\<close>

theorem first_balanced_span_counterexample:
  "first_balanced_span (str_of ''{}{}'') = Some (str_of ''{}'')
   \<and> loads_sample (str_of ''{}'') = Inr []
   \<and> json_span (str_of ''{}{}'') = str_of ''{}{}''
   \<and> parse_response loads_sample (Some (str_of ''{}{}''))
       = Inr (raw_draft (Some (str_of ''{}{}'')))"
  by (simp add: parse_response_def loads_sample_def json_span_def py_slice_def
        slice_index_def py_rfind_def LBRACE_def RBRACE_def)


section \<open>Artifact Store: what is written\<close>

lemma map_of_dict_set: "map_of (dict_set d k v) = (map_of d)(k \<mapsto> v)"
  by (induction d) auto

lemma dict_set_twice: "dict_set (dict_set d k v) k v' = dict_set d k v'"
  by (induction d) auto

lemma dict_get_dict_set_other: "k' \<noteq> k \<Longrightarrow> dict_get (dict_set d k v) k' x = dict_get d k' x"
  by (simp add: dict_get_def map_of_dict_set)

lemma key_distinct:
  "k_original_text \<noteq> k_metadata" "k_key_points \<noteq> k_metadata" "k_intentions \<noteq> k_metadata"
  by (simp_all add: k_original_text_def k_key_points_def k_intentions_def k_metadata_def)

lemma key_literals:
  "str_of ''metadata'' = k_metadata" "str_of ''timestamp'' = k_timestamp"
  "str_of ''context'' = k_context" "str_of ''goal'' = k_goal"
  "str_of ''original_text'' = k_original_text"
  by (simp_all add: k_metadata_def k_timestamp_def k_context_def k_goal_def k_original_text_def)

lemma fresh_metadata_fields:
  "JObj [(str_of ''timestamp'', JStr t), (str_of ''context'', JStr c), (str_of ''goal'', JStr g)]
     = fresh_metadata t c g"
  by (simp add: fresh_metadata_def k_timestamp_def k_context_def k_goal_def)

lemma draft_body_writes_metadata:
  "draft_body_writes (dict_set d k_metadata m) = draft_body_writes d"
  using key_distinct by (simp add: draft_body_writes_def dict_get_dict_set_other)

lemma encodable_dict_set:
  "json_encodable (JObj d) \<Longrightarrow> utf8_ok k \<Longrightarrow> json_encodable v \<Longrightarrow>
   json_encodable (JObj (dict_set d k v))"
  by (induction d) auto

lemma utf8_ok_keys:
  "utf8_ok k_metadata" "utf8_ok k_timestamp" "utf8_ok k_context" "utf8_ok k_goal"
  "utf8_ok k_original_text" "utf8_ok k_key_points" "utf8_ok k_intentions"
  by (simp_all add: utf8_ok_def k_metadata_def k_timestamp_def k_context_def k_goal_def
        k_original_text_def k_key_points_def k_intentions_def)

lemma encodable_fresh_metadata:
  "json_encodable (fresh_metadata t c g) = (utf8_ok t \<and> utf8_ok c \<and> utf8_ok g)"
  by (simp add: fresh_metadata_def utf8_ok_keys)

lemma snd_catch_all: "snd (catch_all x) = snd x"
  by (cases x) (auto simp: catch_all_def split: sum.splits)

lemma catch_all_idem: "catch_all (catch_all x) = catch_all x"
  by (cases x) (auto simp: catch_all_def split: sum.splits)

lemma catch_all_paths:
  "(fst (catch_all x) = Inr (Some jp, mp)) = (fst x = Inr (Some jp, mp))"
  by (cases x) (auto simp: catch_all_def split: sum.splits if_splits)

lemma catch_all_eq:
  "catch_all (r, w) =
     ((case r of Inl e \<Rightarrow> if stdout_ok w then Inr (None, None) else Inl UnicodeEncodeError
               | Inr paths \<Rightarrow> Inr paths), w)"
  by (simp add: catch_all_def split: sum.splits)

text \<open>\<open>save_dialogue_data_try\<close> step by step: the directory, the two files in
  turn, and the statements that render the second.\<close>

lemma save_try_steps:
  "save_dialogue_data_try w d c g =
     (let dir = str_of ''dialogue_data'';
          jp = draft_base w c @ str_of ''.json'';
          mp = draft_base w c @ str_of ''.md'';
          v = JObj (dict_set d k_metadata (fresh_metadata (clock w (tick w)) c g));
          ws = [Inr [Txt t_record_title, Txt (take 30 c), Txt t_dots],
                Inr [Txt t_time, Txt (clock w (tick w)), Txt t_nl2],
                Inr [Txt t_context, Txt c, Txt t_nl2],
                Inr [Txt t_goal, Txt g, Txt t_nl2]] @ draft_body_writes d;
          w3 = w\<lparr>dirs := (if path_exists w dir then dirs w else dir # dirs w),
                 tick := Suc (tick w), drawn := Suc (drawn w)\<rparr>
      in if \<not> path_exists w dir \<and> dir \<in> set (denied w) then (Inl OSError, w)
         else if \<not> can_open_w w3 jp then (Inl OSError, w3)
         else if \<not> json_encodable v
           then (Inl UnicodeEncodeError, w3\<lparr>files := (files w)(jp \<mapsto> Truncated v)\<rparr>)
         else if \<not> can_open_w w3 mp
           then (Inl OSError, w3\<lparr>files := (files w)(jp \<mapsto> JsonText v)\<rparr>)
         else ((case snd (run_writes ws) of None \<Rightarrow> Inr (Some jp, Some mp) | Some e \<Rightarrow> Inl e),
               w3\<lparr>files := (files w)(jp \<mapsto> JsonText v, mp \<mapsto> Rendered (fst (run_writes ws)))\<rparr>))"
  by (simp add: save_dialogue_data_try_def now_def uuid4_def Let_def draft_base_def
        ensure_dir_def write_json_file_def write_md_file_def safe_context_of_def py_strip_def
        can_open_w_def case_prod_beta
      del: run_writes.simps split: option.splits)

lemma draft_paths_differ: "draft_base w c @ str_of ''.json'' \<noteq> draft_base w c @ str_of ''.md''"
  by simp

lemma save_cases:
  "\<exists>out.
     (fst (save_dialogue_data_try w d c g)
        = Inr (Some (draft_base w c @ str_of ''.json''), Some (draft_base w c @ str_of ''.md''))
      \<and> files (snd (save_dialogue_data_try w d c g))
          = (files w)(draft_base w c @ str_of ''.json'' \<mapsto>
                JsonText (JObj (dict_set d k_metadata (fresh_metadata (clock w (tick w)) c g))),
              draft_base w c @ str_of ''.md'' \<mapsto> Rendered out))
     \<or> (isl (fst (save_dialogue_data_try w d c g))
        \<and> (files (snd (save_dialogue_data_try w d c g)) = files w
           \<or> files (snd (save_dialogue_data_try w d c g))
               = (files w)(draft_base w c @ str_of ''.json'' \<mapsto>
                    Truncated (JObj (dict_set d k_metadata (fresh_metadata (clock w (tick w)) c g))))
           \<or> files (snd (save_dialogue_data_try w d c g))
               = (files w)(draft_base w c @ str_of ''.json'' \<mapsto>
                    JsonText (JObj (dict_set d k_metadata (fresh_metadata (clock w (tick w)) c g))))
           \<or> files (snd (save_dialogue_data_try w d c g))
               = (files w)(draft_base w c @ str_of ''.json'' \<mapsto>
                    JsonText (JObj (dict_set d k_metadata (fresh_metadata (clock w (tick w)) c g))),
                  draft_base w c @ str_of ''.md'' \<mapsto> Rendered out)))"
  unfolding save_try_steps Let_def
  by (cases "snd (run_writes ([Inr [Txt t_record_title, Txt (take 30 c), Txt t_dots],
                Inr [Txt t_time, Txt (clock w (tick w)), Txt t_nl2],
                Inr [Txt t_context, Txt c, Txt t_nl2],
                Inr [Txt t_goal, Txt g, Txt t_nl2]] @ draft_body_writes d))")
     (auto simp del: run_writes.simps)

lemma save_try_frame:
  "denied (snd (save_dialogue_data_try w d c g)) = denied w
   \<and> clock (snd (save_dialogue_data_try w d c g)) = clock w
   \<and> stdout_ok (snd (save_dialogue_data_try w d c g)) = stdout_ok w
   \<and> set (dirs (snd (save_dialogue_data_try w d c g)))
        \<subseteq> insert (str_of ''dialogue_data'') (set (dirs w))"
  unfolding save_try_steps Let_def
  by (auto simp del: run_writes.simps)


lemma save_paths:
  assumes "fst (save_dialogue_data w d c g) = Inr (Some jp, mp)"
  shows "jp = draft_base w c @ str_of ''.json'' \<and> mp = Some (draft_base w c @ str_of ''.md'')
         \<and> files (snd (save_dialogue_data w d c g)) jp
             = Some (JsonText (JObj (dict_set d k_metadata
                       (fresh_metadata (clock w (tick w)) c g))))"
proof -
  from assms have t: "fst (save_dialogue_data_try w d c g) = Inr (Some jp, mp)"
    by (simp add: save_dialogue_data_def catch_all_paths)
  from save_cases [of w d c g] t show ?thesis
    by (auto simp: save_dialogue_data_def snd_catch_all)
qed

lemma save_frame:
  "denied (snd (save_dialogue_data w d c g)) = denied w
   \<and> clock (snd (save_dialogue_data w d c g)) = clock w
   \<and> stdout_ok (snd (save_dialogue_data w d c g)) = stdout_ok w
   \<and> set (dirs (snd (save_dialogue_data w d c g)))
        \<subseteq> insert (str_of ''dialogue_data'') (set (dirs w))"
  using save_try_frame [of w d c g] by (simp add: save_dialogue_data_def snd_catch_all)

lemma save_returns:
  assumes "stdout_ok w"
  shows "fst (save_dialogue_data w d c g) = Inr (None, None)
         \<or> fst (save_dialogue_data w d c g)
             = Inr (Some (draft_base w c @ str_of ''.json''), Some (draft_base w c @ str_of ''.md''))"
proof -
  obtain r w' where t: "save_dialogue_data_try w d c g = (r, w')"
    by (cases "save_dialogue_data_try w d c g")
  from save_try_frame [of w d c g] assms t have "stdout_ok w'" by simp
  with save_cases [of w d c g] t show ?thesis
    by (auto simp: save_dialogue_data_def catch_all_eq split: sum.splits)
qed

lemma save_failure_files:
  assumes "fst (save_dialogue_data w d c g) = Inr (None, None)"
  shows "\<exists>out.
           files (snd (save_dialogue_data w d c g)) = files w
           \<or> files (snd (save_dialogue_data w d c g))
               = (files w)(draft_base w c @ str_of ''.json'' \<mapsto>
                    Truncated (JObj (dict_set d k_metadata (fresh_metadata (clock w (tick w)) c g))))
           \<or> files (snd (save_dialogue_data w d c g))
               = (files w)(draft_base w c @ str_of ''.json'' \<mapsto>
                    JsonText (JObj (dict_set d k_metadata (fresh_metadata (clock w (tick w)) c g))))
           \<or> files (snd (save_dialogue_data w d c g))
               = (files w)(draft_base w c @ str_of ''.json'' \<mapsto>
                    JsonText (JObj (dict_set d k_metadata (fresh_metadata (clock w (tick w)) c g))),
                  draft_base w c @ str_of ''.md'' \<mapsto> Rendered out)"
proof -
  obtain r w' where t: "save_dialogue_data_try w d c g = (r, w')"
    by (cases "save_dialogue_data_try w d c g")
  from save_cases [of w d c g] assms t show ?thesis
    by (auto simp: save_dialogue_data_def catch_all_eq split: sum.splits if_splits)
qed

lemma save_ignores_metadata:
  "save_dialogue_data w (dict_set d k_metadata m) c g = save_dialogue_data w d c g"
  unfolding save_dialogue_data_def save_dialogue_data_try_def dict_set_twice
    draft_body_writes_metadata
  by (rule refl)

lemma run_writes_append:
  "run_writes (a @ b) =
     (case run_writes a of
        (out, None) \<Rightarrow> (out @ fst (run_writes b), snd (run_writes b))
      | (out, Some e) \<Rightarrow> (out, Some e))"
  by (induction a rule: run_writes.induct) (auto split: prod.splits option.splits)

lemma utf8_ok_take: "utf8_ok s \<Longrightarrow> utf8_ok (take n s)"
  by (auto simp: utf8_ok_def list_all_iff dest: in_set_takeD)

lemma utf8_ok_literals:
  "utf8_ok t_record_title" "utf8_ok t_final_title" "utf8_ok t_dots" "utf8_ok t_time"
  "utf8_ok t_context" "utf8_ok t_goal" "utf8_ok t_nl2" "utf8_ok t_nl"
  "utf8_ok t_content_heading" "utf8_ok t_fence_open" "utf8_ok t_fence_close"
  "utf8_ok t_key_points_heading" "utf8_ok t_intentions_heading" "utf8_ok t_bullet"
  "utf8_ok t_traits_heading" "utf8_ok t_user_traits" "utf8_ok t_ai_traits"
  "utf8_ok t_final_heading" "utf8_ok t_initial_heading" "utf8_ok t_key_points_subheading"
  "utf8_ok t_intentions_subheading"
  by (simp_all add: utf8_ok_def t_record_title_def t_final_title_def t_dots_def t_time_def
        t_context_def t_goal_def t_nl2_def t_nl_def t_content_heading_def t_fence_open_def
        t_fence_close_def t_key_points_heading_def t_intentions_heading_def t_bullet_def
        t_traits_heading_def t_user_traits_def t_ai_traits_def t_final_heading_def
        t_initial_heading_def t_key_points_subheading_def t_intentions_subheading_def)

lemma save_succeeds:
  assumes "str_of ''dialogue_data'' \<notin> set (denied w)"
    and "draft_base w c @ str_of ''.json'' \<notin> set (denied w) \<union> set (dirs w)"
    and "draft_base w c @ str_of ''.md'' \<notin> set (denied w) \<union> set (dirs w)"
    and "json_encodable (JObj d)"
    and "utf8_ok (clock w (tick w))" and "utf8_ok c" and "utf8_ok g"
    and "snd (run_writes (draft_body_writes d)) = None"
  shows "fst (save_dialogue_data w d c g)
           = Inr (Some (draft_base w c @ str_of ''.json''), Some (draft_base w c @ str_of ''.md''))"
proof -
  have e: "json_encodable (JObj (dict_set d k_metadata (fresh_metadata (clock w (tick w)) c g)))"
    using assms(4-7) by (intro encodable_dict_set) (simp_all add: utf8_ok_keys encodable_fresh_metadata)
  have r: "snd (run_writes ([Inr [Txt t_record_title, Txt (take 30 c), Txt t_dots],
                Inr [Txt t_time, Txt (clock w (tick w)), Txt t_nl2],
                Inr [Txt t_context, Txt c, Txt t_nl2],
                Inr [Txt t_goal, Txt g, Txt t_nl2]] @ draft_body_writes d)) = None"
    using assms(5-8) by (simp add: case_prod_beta utf8_ok_literals utf8_ok_take)
  have j: "draft_base w c @ str_of ''.json'' \<noteq> str_of ''dialogue_data''"
    "draft_base w c @ str_of ''.md'' \<noteq> str_of ''dialogue_data''"
    by (simp_all add: draft_base_def)
  show ?thesis
    unfolding save_dialogue_data_def save_try_steps Let_def
    using assms(1-3) e r j
    by (simp add: catch_all_eq can_open_w_def del: run_writes.simps)
qed

lemma recover_stored:
  "files w p = Some (JsonText (JObj old)) \<Longrightarrow> map_of old k_metadata = Some m \<Longrightarrow>
   recover_metadata w p c g = (m, w)"
  by (simp add: recover_metadata_def read_json_file_def Let_def)

lemma recover_undecodable:
  "files w p = Some (Truncated v) \<Longrightarrow>
   recover_metadata w p c g
     = (fresh_metadata (clock w (tick w)) c g, w\<lparr>tick := Suc (tick w)\<rparr>)"
  by (simp add: recover_metadata_def read_json_file_def Let_def now_def)

lemma recover_world:
  "snd (recover_metadata w p c g) = w \<or> snd (recover_metadata w p c g) = w\<lparr>tick := Suc (tick w)\<rparr>"
  by (auto simp: recover_metadata_def now_def Let_def
      split: sum.splits json.splits option.splits if_splits)

lemma splitext_root_take: "\<exists>k. splitext_root p = take k p"
proof (cases "splitext_root p = p")
  case True
  then have "splitext_root p = take (length p) p" by simp
  then show ?thesis by blast
next
  case False
  then have "splitext_root p = py_slice p 0 (py_rfind 46 p)"
    by (auto simp: splitext_root_def Let_def split: if_splits)
  moreover have "py_slice p 0 (py_rfind 46 p) = take (slice_index (length p) (py_rfind 46 p)) p"
    by (simp add: py_slice_def slice_index_def Let_def)
  ultimately show ?thesis by metis
qed

lemma md_path_neq: "splitext_root (b @ str_of ''.json'') @ str_of ''.md'' \<noteq> b @ str_of ''.json''"
proof
  let ?p = "b @ str_of ''.json''"
  assume eq: "splitext_root ?p @ str_of ''.md'' = ?p"
  have "last (splitext_root ?p @ str_of ''.md'') = 100" by simp
  moreover have "last ?p = 110" by simp
  ultimately show False using eq by simp
qed

text \<open>\<open>update_dialogue_files_rest\<close> step by step, from the recovered metadata
  on.\<close>

lemma update_rest_steps:
  "update_dialogue_files_rest w p d c g =
     (let m = fst (recover_metadata w p c g);
          w1 = snd (recover_metadata w p c g);
          mdp = splitext_root p @ str_of ''.md'';
          v = JObj (dict_set d k_metadata m)
      in if \<not> can_open_w w p then (Inl OSError, w1)
         else if \<not> json_encodable v
           then (Inl UnicodeEncodeError, w1\<lparr>files := (files w)(p \<mapsto> Truncated v)\<rparr>)
         else
           (case m of
              JObj md \<Rightarrow>
                (let ws = [Inr [Txt t_record_title, Txt (take 30 c), Txt t_dots],
                           Inr [Txt t_time, Val (dict_get md k_timestamp (JStr [])), Txt t_nl2],
                           Inr [Txt t_context, Val (dict_get md k_context (JStr c)), Txt t_nl2],
                           Inr [Txt t_goal, Val (dict_get md k_goal (JStr g)), Txt t_nl2]]
                          @ draft_body_writes d
                 in if \<not> can_open_w w mdp
                    then (Inl OSError, w1\<lparr>files := (files w)(p \<mapsto> JsonText v)\<rparr>)
                    else ((case snd (run_writes ws) of
                             None \<Rightarrow> Inr (Some p, Some mdp) | Some e \<Rightarrow> Inl e),
                          w1\<lparr>files := (files w)(p \<mapsto> JsonText v,
                                                  mdp \<mapsto> Rendered (fst (run_writes ws)))\<rparr>))
            | _ \<Rightarrow> (Inl AttributeError, w1\<lparr>files := (files w)(p \<mapsto> JsonText v)\<rparr>)))"
proof -
  obtain m w1 where r: "recover_metadata w p c g = (m, w1)"
    by (cases "recover_metadata w p c g")
  from recover_world [of w p c g] r
  have "w1 = w \<or> w1 = w\<lparr>tick := Suc (tick w)\<rparr>" by simp
  then show ?thesis
    by (rule disjE)
       (simp_all add: update_dialogue_files_rest_def r Let_def write_json_file_def
          write_md_file_def can_open_w_def case_prod_beta
        del: run_writes.simps split: json.splits option.splits)
qed

lemma update_rest_cases:
  "\<exists>out v.
     v = JObj (dict_set d k_metadata (fst (recover_metadata w p c g)))
     \<and> ((fst (update_dialogue_files_rest w p d c g)
            = Inr (Some p, Some (splitext_root p @ str_of ''.md''))
          \<and> json_encodable v \<and> can_open_w w p
          \<and> files (snd (update_dialogue_files_rest w p d c g))
              = (files w)(p \<mapsto> JsonText v, splitext_root p @ str_of ''.md'' \<mapsto> Rendered out))
         \<or> (isl (fst (update_dialogue_files_rest w p d c g))
            \<and> ((\<not> can_open_w w p \<and> files (snd (update_dialogue_files_rest w p d c g)) = files w)
               \<or> (can_open_w w p \<and> \<not> json_encodable v
                  \<and> files (snd (update_dialogue_files_rest w p d c g))
                      = (files w)(p \<mapsto> Truncated v))
               \<or> (can_open_w w p \<and> json_encodable v
                  \<and> files (snd (update_dialogue_files_rest w p d c g))
                      = (files w)(p \<mapsto> JsonText v))
               \<or> (can_open_w w p \<and> json_encodable v
                  \<and> files (snd (update_dialogue_files_rest w p d c g))
                      = (files w)(p \<mapsto> JsonText v,
                                  splitext_root p @ str_of ''.md'' \<mapsto> Rendered out)))))"
proof -
  from recover_world [of w p c g]
  have f: "files (snd (recover_metadata w p c g)) = files w" by auto
  show ?thesis
    unfolding update_rest_steps Let_def
    using f
    by (auto simp del: run_writes.simps split: json.splits option.splits)
qed

lemma update_rest_frame:
  "denied (snd (update_dialogue_files_rest w p d c g)) = denied w
   \<and> dirs (snd (update_dialogue_files_rest w p d c g)) = dirs w
   \<and> clock (snd (update_dialogue_files_rest w p d c g)) = clock w
   \<and> stdout_ok (snd (update_dialogue_files_rest w p d c g)) = stdout_ok w"
proof -
  from recover_world [of w p c g]
  have f: "denied (snd (recover_metadata w p c g)) = denied w"
    "dirs (snd (recover_metadata w p c g)) = dirs w"
    "clock (snd (recover_metadata w p c g)) = clock w"
    "stdout_ok (snd (recover_metadata w p c g)) = stdout_ok w" by auto
  show ?thesis
    unfolding update_rest_steps Let_def
    using f
    by (auto simp del: run_writes.simps split: json.splits option.splits)
qed

lemma update_existing:
  "p \<noteq> [] \<Longrightarrow> path_exists w p \<Longrightarrow>
   update_dialogue_files w (Some p) d c g = catch_all (update_dialogue_files_rest w p d c g)"
  by (simp add: update_dialogue_files_def update_dialogue_files_try_def path_missing_def)

lemma update_falls_back:
  "json_path = None \<or> json_path = Some [] \<or> (\<exists>p. json_path = Some p \<and> \<not> path_exists w p) \<Longrightarrow>
   update_dialogue_files w json_path d c g = save_dialogue_data w d c g"
  by (auto simp: update_dialogue_files_def update_dialogue_files_try_def path_missing_def
        save_dialogue_data_def catch_all_idem)

lemma update_files_json:
  assumes "p \<noteq> []" and "path_exists w p" and "can_open_w w p"
    and "splitext_root p @ str_of ''.md'' \<noteq> p"
    and "json_encodable (JObj (dict_set d k_metadata (fst (recover_metadata w p c g))))"
  shows "files (snd (update_dialogue_files w (Some p) d c g)) p
           = Some (JsonText (JObj (dict_set d k_metadata (fst (recover_metadata w p c g)))))"
  using update_rest_cases [of d w p c g] assms(3-5)
  by (auto simp: update_existing [OF assms(1,2)] snd_catch_all)

lemma update_files_denied:
  assumes "p \<noteq> []" and "path_exists w p" and "\<not> can_open_w w p"
  shows "files (snd (update_dialogue_files w (Some p) d c g)) = files w"
  using update_rest_cases [of d w p c g] assms(3)
  by (auto simp: update_existing [OF assms(1,2)] snd_catch_all)

lemma update_files_truncated:
  assumes "p \<noteq> []" and "path_exists w p" and "can_open_w w p"
    and "\<not> json_encodable (JObj (dict_set d k_metadata (fst (recover_metadata w p c g))))"
  shows "files (snd (update_dialogue_files w (Some p) d c g))
           = (files w)(p \<mapsto> Truncated (JObj (dict_set d k_metadata
                                 (fst (recover_metadata w p c g)))))
         \<and> isl (fst (update_dialogue_files_rest w p d c g))"
  using update_rest_cases [of d w p c g] assms(3,4)
  by (auto simp: update_existing [OF assms(1,2)] snd_catch_all)

lemma update_frame:
  assumes "p \<noteq> []" and "path_exists w p"
  shows "denied (snd (update_dialogue_files w (Some p) d c g)) = denied w
         \<and> dirs (snd (update_dialogue_files w (Some p) d c g)) = dirs w
         \<and> clock (snd (update_dialogue_files w (Some p) d c g)) = clock w
         \<and> stdout_ok (snd (update_dialogue_files w (Some p) d c g)) = stdout_ok w"
  using update_rest_frame [of w p d c g]
  by (simp add: update_existing [OF assms] snd_catch_all)

lemma update_returns:
  assumes "stdout_ok w"
  shows "fst (update_dialogue_files w json_path d c g) = Inr (None, None)
         \<or> fst (update_dialogue_files w json_path d c g)
             = Inr (Some (draft_base w c @ str_of ''.json''), Some (draft_base w c @ str_of ''.md''))
         \<or> (\<exists>p. json_path = Some p
                \<and> fst (update_dialogue_files w json_path d c g)
                    = Inr (Some p, Some (splitext_root p @ str_of ''.md'')))"
proof (cases "json_path = None \<or> json_path = Some [] \<or> (\<exists>p. json_path = Some p \<and> \<not> path_exists w p)")
  case True
  from update_falls_back [OF this] save_returns [OF assms, of d c g] show ?thesis by auto
next
  case False
  then obtain p where p: "json_path = Some p" "p \<noteq> []" "path_exists w p" by auto
  obtain r w' where t: "update_dialogue_files_rest w p d c g = (r, w')"
    by (cases "update_dialogue_files_rest w p d c g")
  from update_rest_frame [of w p d c g] assms t have "stdout_ok w'" by simp
  with update_rest_cases [of d w p c g] t show ?thesis
    unfolding p(1) update_existing [OF p(2,3)]
    by (auto simp: catch_all_eq split: sum.splits)
qed

lemma update_failure_files:
  assumes "p \<noteq> []" and "path_exists w p"
    and "fst (update_dialogue_files w (Some p) d c g) = Inr (None, None)"
  shows "\<exists>out.
           files (snd (update_dialogue_files w (Some p) d c g)) = files w
           \<or> files (snd (update_dialogue_files w (Some p) d c g))
               = (files w)(p \<mapsto> Truncated (JObj (dict_set d k_metadata
                                    (fst (recover_metadata w p c g)))))
           \<or> files (snd (update_dialogue_files w (Some p) d c g))
               = (files w)(p \<mapsto> JsonText (JObj (dict_set d k_metadata
                                    (fst (recover_metadata w p c g)))))
           \<or> files (snd (update_dialogue_files w (Some p) d c g))
               = (files w)(p \<mapsto> JsonText (JObj (dict_set d k_metadata
                                    (fst (recover_metadata w p c g)))),
                           splitext_root p @ str_of ''.md'' \<mapsto> Rendered out)"
proof -
  obtain r w' where t: "update_dialogue_files_rest w p d c g = (r, w')"
    by (cases "update_dialogue_files_rest w p d c g")
  from update_rest_cases [of d w p c g] assms(3) t show ?thesis
    unfolding update_existing [OF assms(1,2)]
    by (auto simp: catch_all_eq split: sum.splits if_splits)
qed

lemma save_tick:
  "fst (save_dialogue_data w d c g) = Inr (Some jp, mp) \<Longrightarrow>
   tick (snd (save_dialogue_data w d c g)) = Suc (tick w)"
  unfolding save_dialogue_data_def catch_all_paths snd_catch_all
  unfolding save_try_steps Let_def
  by (auto simp del: run_writes.simps split: if_splits option.splits)

section \<open>The sample draft on disk\<close>

lemma draft_base_world0: "draft_base world0 sample_context = sample_base"
  by (simp add: draft_base_def world0_def safe_context_of_def py_strip_def
        ascii_word_def ascii_space_def sample_context_def sample_base_def)

lemma world0_fields:
  "denied world0 = []" "dirs world0 = []" "files world0 p = None"
  "clock world0 (tick world0) = sample_timestamp" "stdout_ok world0"
  "clock world0 (Suc (tick world0)) = sample_next_timestamp"
  by (simp_all add: world0_def sample_timestamp_def sample_next_timestamp_def)

lemma sample_utf8_ok:
  "utf8_ok sample_context" "utf8_ok sample_goal" "utf8_ok sample_text"
  "utf8_ok sample_timestamp" "utf8_ok sample_next_timestamp" "utf8_ok sample_edit"
  "utf8_ok sample_user_traits" "utf8_ok sample_ai_traits" "utf8_ok sample_final_text"
  "utf8_ok sample_old_timestamp" "\<not> utf8_ok sample_surrogate_text"
  by (simp_all add: utf8_ok_def sample_context_def sample_goal_def sample_text_def
        sample_timestamp_def sample_next_timestamp_def sample_edit_def sample_user_traits_def
        sample_ai_traits_def sample_final_text_def sample_old_timestamp_def
        sample_surrogate_text_def)

lemma encodable_raw_draft: "json_encodable (JObj (raw_draft (Some r))) = utf8_ok r"
  by (simp add: raw_draft_def response_value_def utf8_ok_keys)

lemma encodable_raw_draft_None: "json_encodable (JObj (raw_draft None))"
  by (simp add: raw_draft_def response_value_def utf8_ok_keys)

lemma raw_draft_lookup:
  "map_of (raw_draft r) k_original_text = Some (response_value r)"
  "map_of (raw_draft r) k_metadata = None"
  by (simp_all add: raw_draft_def k_original_text_def k_metadata_def k_key_points_def
        k_intentions_def)

lemma encodable_raw_draft_metadata:
  "json_encodable (JObj (dict_set (raw_draft (Some r)) k_metadata m))
     = (utf8_ok r \<and> json_encodable m)"
  using key_distinct
  by (simp add: raw_draft_def response_value_def utf8_ok_keys)

lemma render_raw_draft:
  "utf8_ok r \<Longrightarrow> snd (run_writes (draft_body_writes (raw_draft (Some r)))) = None"
  by (simp add: draft_body_writes_def raw_draft_def response_value_def dict_get_def
        write_str_def k_original_text_def k_key_points_def k_intentions_def utf8_ok_literals)

lemma render_raw_draft_None:
  "snd (run_writes (draft_body_writes (raw_draft None))) = Some TypeError"
  by (simp add: draft_body_writes_def raw_draft_def response_value_def dict_get_def
        write_str_def k_original_text_def k_key_points_def k_intentions_def utf8_ok_literals)

lemma save_world0_raw:
  assumes "utf8_ok r" and "utf8_ok g"
  shows "fst (save_dialogue_data world0 (raw_draft (Some r)) sample_context g)
           = Inr (Some sample_json_path, Some sample_md_path)"
proof -
  have e: "json_encodable (JObj (raw_draft (Some r)))"
    using assms(1) by (simp only: encodable_raw_draft)
  have "fst (save_dialogue_data world0 (raw_draft (Some r)) sample_context g)
          = Inr (Some (draft_base world0 sample_context @ str_of ''.json''),
                 Some (draft_base world0 sample_context @ str_of ''.md''))"
    using assms
    by (intro save_succeeds e render_raw_draft)
       (simp_all add: world0_fields draft_base_world0 sample_utf8_ok)
  then show ?thesis
    by (simp add: draft_base_world0 sample_json_path_def sample_md_path_def)
qed

lemma save_world0_metadata:
  assumes "utf8_ok r" and "utf8_ok g"
  shows "fst (save_dialogue_data world0 (dict_set (raw_draft (Some r)) k_metadata m)
                sample_context g)
           = Inr (Some sample_json_path, Some sample_md_path)"
  unfolding save_ignores_metadata using assms by (rule save_world0_raw)

lemma sample_saved_fields:
  "files sample_saved sample_json_path
     = Some (JsonText (JObj (dict_set (raw_draft (Some sample_text)) k_metadata
               (fresh_metadata sample_timestamp sample_context sample_goal))))"
  "denied sample_saved = []" "stdout_ok sample_saved"
  "clock sample_saved (tick sample_saved) = sample_next_timestamp"
  "can_open_w sample_saved sample_json_path"
  "path_exists sample_saved sample_json_path"
proof -
  note s = save_world0_raw [OF sample_utf8_ok(3,2)]
  from save_paths [OF s]
  show f: "files sample_saved sample_json_path
     = Some (JsonText (JObj (dict_set (raw_draft (Some sample_text)) k_metadata
               (fresh_metadata sample_timestamp sample_context sample_goal))))"
    by (simp add: sample_saved_def world0_fields)
  note fr = save_frame [of world0 "raw_draft (Some sample_text)" sample_context sample_goal]
  from fr show "denied sample_saved = []" "stdout_ok sample_saved"
    by (simp_all add: sample_saved_def world0_fields)
  from fr save_tick [OF s]
  show "clock sample_saved (tick sample_saved) = sample_next_timestamp"
    by (simp add: sample_saved_def world0_fields)
  from fr show "can_open_w sample_saved sample_json_path"
    by (auto simp: can_open_w_def sample_saved_def world0_fields sample_json_path_def
          sample_base_def)
  from f show "path_exists sample_saved sample_json_path"
    by (simp add: path_exists_def)
qed

lemma sample_nonempty:
  "sample_context \<noteq> []" "sample_goal \<noteq> []" "sample_user_traits \<noteq> []"
  "sample_ai_traits \<noteq> []" "sample_json_path \<noteq> []"
  by (simp_all add: sample_context_def sample_goal_def sample_user_traits_def
        sample_ai_traits_def sample_json_path_def)

section \<open>Artifact Store: creation\<close>

lemma save_read:
  assumes "fst (save_dialogue_data w d c g) = Inr (Some jp, mp)"
  shows "read_json_file (snd (save_dialogue_data w d c g)) jp
           = Inr (JObj (dict_set d k_metadata (fresh_metadata (clock w (tick w)) c g)))"
proof -
  from save_paths [OF assms]
  have "files (snd (save_dialogue_data w d c g)) jp
          = Some (JsonText (JObj (dict_set d k_metadata
                    (fresh_metadata (clock w (tick w)) c g))))"
    by blast
  then show ?thesis by (simp add: read_json_file_def)
qed



text \<open>
  C10. \<open>save_dialogue_data\<close> does not look at a \<open>metadata\<close> the record carries:
  it returns the same and leaves the same world as for the record without it,
  and in the stored record \<open>metadata\<close> is the dict of the current reading of the
  clock and the caller's context and goal. An update whose path is absent,
  empty or names nothing that exists is that same creation, so it stores new
  metadata in the same way.
\<close>

theorem create_discards_supplied_metadata:
  "save_dialogue_data w (dict_set d (str_of ''metadata'') m) context goal
     = save_dialogue_data w d context goal
   \<and> (fst (save_dialogue_data w (dict_set d (str_of ''metadata'') m) context goal)
         = Inr (Some jp, Some mp) \<longrightarrow>
        read_json_file
          (snd (save_dialogue_data w (dict_set d (str_of ''metadata'') m) context goal)) jp
          = Inr (JObj (dict_set d (str_of ''metadata'')
                         (JObj [(str_of ''timestamp'', JStr (clock w (tick w))),
                                (str_of ''context'', JStr context),
                                (str_of ''goal'', JStr goal)]))))
   \<and> (json_path = None \<or> json_path = Some [] \<or> (\<exists>p. json_path = Some p \<and> \<not> path_exists w p) \<longrightarrow>
        update_dialogue_files w json_path (dict_set d (str_of ''metadata'') m) context goal
          = save_dialogue_data w d context goal
        \<and> (fst (update_dialogue_files w json_path (dict_set d (str_of ''metadata'') m)
                   context goal) = Inr (Some jp, Some mp) \<longrightarrow>
             read_json_file
               (snd (update_dialogue_files w json_path (dict_set d (str_of ''metadata'') m)
                       context goal)) jp
               = Inr (JObj (dict_set d (str_of ''metadata'')
                              (JObj [(str_of ''timestamp'', JStr (clock w (tick w))),
                                     (str_of ''context'', JStr context),
                                     (str_of ''goal'', JStr goal)])))))"
proof -
  have s: "save_dialogue_data w (dict_set d k_metadata m) context goal
             = save_dialogue_data w d context goal"
    by (rule save_ignores_metadata)
  have r: "fst (save_dialogue_data w d context goal) = Inr (Some jp, Some mp) \<Longrightarrow>
           read_json_file (snd (save_dialogue_data w d context goal)) jp
             = Inr (JObj (dict_set d k_metadata (fresh_metadata (clock w (tick w)) context goal)))"
    by (rule save_read)
  have u: "json_path = None \<or> json_path = Some [] \<or> (\<exists>p. json_path = Some p \<and> \<not> path_exists w p)
           \<Longrightarrow> update_dialogue_files w json_path (dict_set d k_metadata m) context goal
                 = save_dialogue_data w d context goal"
    using update_falls_back [of json_path w "dict_set d k_metadata m" "context" "goal"]
    by (simp only: s)
  show ?thesis
    unfolding key_literals
    using s r u by (auto simp: fresh_metadata_def)
qed

theorem create_discards_supplied_metadata_witness:
  "read_json_file
     (snd (save_dialogue_data world0
             (dict_set (raw_draft (Some sample_text)) (str_of ''metadata'') (JStr (str_of ''mine'')))
             sample_context sample_goal))
     sample_json_path
   = Inr (JObj [(str_of ''original_text'', JStr sample_text),
                (str_of ''key_points'', JArr []),
                (str_of ''intentions'', JArr []),
                (str_of ''metadata'',
                 JObj [(str_of ''timestamp'', JStr sample_timestamp),
                       (str_of ''context'', JStr sample_context),
                       (str_of ''goal'', JStr sample_goal)])])
   \<and> read_json_file
       (snd (update_dialogue_files world0 (Some (str_of ''dialogue_data/gone.json''))
               (dict_set (raw_draft (Some sample_text)) (str_of ''metadata'')
                  (JStr (str_of ''mine'')))
               sample_context sample_goal))
       sample_json_path
     = Inr (JObj [(str_of ''original_text'', JStr sample_text),
                  (str_of ''key_points'', JArr []),
                  (str_of ''intentions'', JArr []),
                  (str_of ''metadata'',
                   JObj [(str_of ''timestamp'', JStr sample_timestamp),
                         (str_of ''context'', JStr sample_context),
                         (str_of ''goal'', JStr sample_goal)])])"
proof -
  let ?d = "raw_draft (Some sample_text)"
  let ?m = "JStr (str_of ''mine'')"
  note t = create_discards_supplied_metadata [of world0 ?d ?m sample_context sample_goal
      sample_json_path sample_md_path "Some (str_of ''dialogue_data/gone.json'')"]
  have s: "fst (save_dialogue_data world0 (dict_set ?d (str_of ''metadata'') ?m) sample_context
                  sample_goal)
             = Inr (Some sample_json_path, Some sample_md_path)"
    unfolding key_literals by (rule save_world0_metadata [OF sample_utf8_ok(3,2)])
  have n: "\<exists>p. Some (str_of ''dialogue_data/gone.json'') = Some p \<and> \<not> path_exists world0 p"
    by (simp add: path_exists_def world0_fields)
  have e: "dict_set ?d (str_of ''metadata'')
             (JObj [(str_of ''timestamp'', JStr sample_timestamp),
                    (str_of ''context'', JStr sample_context),
                    (str_of ''goal'', JStr sample_goal)])
           = [(str_of ''original_text'', JStr sample_text),
              (str_of ''key_points'', JArr []),
              (str_of ''intentions'', JArr []),
              (str_of ''metadata'',
               JObj [(str_of ''timestamp'', JStr sample_timestamp),
                     (str_of ''context'', JStr sample_context),
                     (str_of ''goal'', JStr sample_goal)])]"
    by (simp add: raw_draft_def response_value_def k_original_text_def k_key_points_def
          k_intentions_def)
  from t s n have
    "read_json_file
       (snd (save_dialogue_data world0 (dict_set ?d (str_of ''metadata'') ?m) sample_context
               sample_goal)) sample_json_path
       = Inr (JObj (dict_set ?d (str_of ''metadata'')
                      (JObj [(str_of ''timestamp'', JStr (clock world0 (tick world0))),
                             (str_of ''context'', JStr sample_context),
                             (str_of ''goal'', JStr sample_goal)])))"
    and "read_json_file
       (snd (update_dialogue_files world0 (Some (str_of ''dialogue_data/gone.json''))
               (dict_set ?d (str_of ''metadata'') ?m) sample_context sample_goal)) sample_json_path
       = Inr (JObj (dict_set ?d (str_of ''metadata'')
                      (JObj [(str_of ''timestamp'', JStr (clock world0 (tick world0))),
                             (str_of ''context'', JStr sample_context),
                             (str_of ''goal'', JStr sample_goal)])))"
    by metis+
  then show ?thesis
    unfolding world0_fields e by simp
qed

end
